theory Spec2Isabelle
  imports Complex_Main "HOL-Library.Sublist"
begin

section \<open>Python strings and the regular expressions of the metadata extractor\<close>

text \<open>
  Python strings are modelled as \<^typ>\<open>string\<close>; every character of a dataset name, an
  attribute key and the structural metadata is taken to be an ASCII code point, which is
  what the HDF4 reader hands out for MODIS products.
\<close>

text \<open>\<^verbatim>\<open>sub in s\<close> on two Python strings: \<open>sub\<close> occurs in \<open>s\<close> as a contiguous run.\<close>

fun contains :: "string \<Rightarrow> string \<Rightarrow> bool" where
  "contains sub [] = (sub = [])"
| "contains sub (c # cs) = (if prefix sub (c # cs) then True else contains sub cs)"

text \<open>\<^verbatim>\<open>str.lower()\<close>, on ASCII: the letters A to Z move to a to z, every other character stays.\<close>

definition lower_char :: "char \<Rightarrow> char" where
  "lower_char c =
     (case map_of (zip ''ABCDEFGHIJKLMNOPQRSTUVWXYZ'' ''abcdefghijklmnopqrstuvwxyz'') c of
        Some l \<Rightarrow> l
      | None \<Rightarrow> c)"

definition lower :: "string \<Rightarrow> string" where
  "lower s = map lower_char s"

text \<open>\<^verbatim>\<open>s.split(sep)\<close> for a one-character separator: never the empty list.\<close>

fun split_on :: "char \<Rightarrow> string \<Rightarrow> string list" where
  "split_on sep [] = [[]]"
| "split_on sep (c # cs) =
     (if c = sep then [] # split_on sep cs
      else (case split_on sep cs of [] \<Rightarrow> [[c]] | p # ps \<Rightarrow> (c # p) # ps))"

text \<open>\<^verbatim>\<open>s.replace(a, b)\<close> for one-character \<open>a\<close> and \<open>b\<close>.\<close>

definition replace_char :: "char \<Rightarrow> char \<Rightarrow> string \<Rightarrow> string" where
  "replace_char a b s = map (\<lambda>c. if c = a then b else c) s"

text \<open>The character class \<^verbatim>\<open>\d\<close> restricted to ASCII.\<close>

definition is_digit :: "char \<Rightarrow> bool" where
  "is_digit c = (c \<in> set ''0123456789'')"

text \<open>
  One attempt of \<^verbatim>\<open>KEY=\(([^,]+),([^)]+)\)\<close> at the start of \<open>s\<close>. Group 1 is greedy over
  characters that are not a comma, so it is the whole run up to the first comma, which must
  be there and must not come first; group 2 likewise up to the first closing parenthesis.
  Backtracking cannot find another match: a shorter group would be followed by a character
  of its own class, not by the delimiter.
\<close>

definition match_point_at :: "string \<Rightarrow> string \<Rightarrow> (string \<times> string) option" where
  "match_point_at key s =
     (if prefix (key @ ''=('') s then
        (let r = drop (length key + 2) s;
             g1 = takeWhile (\<lambda>c. c \<noteq> CHR '','') r;
             r1 = dropWhile (\<lambda>c. c \<noteq> CHR '','') r
         in if g1 = [] then None
            else if r1 = [] then None
            else (let r2 = tl r1;
                      g2 = takeWhile (\<lambda>c. c \<noteq> CHR '')'') r2;
                      r3 = dropWhile (\<lambda>c. c \<noteq> CHR '')'') r2
                  in if g2 = [] then None
                     else if r3 = [] then None
                     else Some (g1, g2)))
      else None)"

text \<open>\<^verbatim>\<open>re.search\<close> of that pattern: the leftmost start position at which it matches.\<close>

fun search_point :: "string \<Rightarrow> string \<Rightarrow> (string \<times> string) option" where
  "search_point key [] = match_point_at key []"
| "search_point key (c # cs) =
     (case match_point_at key (c # cs) of
        Some g \<Rightarrow> Some g
      | None \<Rightarrow> search_point key cs)"

text \<open>One attempt of \<^verbatim>\<open>KEY=(\d+)\<close> at the start of \<open>s\<close>: the greedy, non-empty run of digits.\<close>

definition match_dim_at :: "string \<Rightarrow> string \<Rightarrow> string option" where
  "match_dim_at key s =
     (if prefix (key @ ''='') s then
        (let g = takeWhile is_digit (drop (length key + 1) s)
         in if g = [] then None else Some g)
      else None)"

fun search_dim :: "string \<Rightarrow> string \<Rightarrow> string option" where
  "search_dim key [] = match_dim_at key []"
| "search_dim key (c # cs) =
     (case match_dim_at key (c # cs) of
        Some g \<Rightarrow> Some g
      | None \<Rightarrow> search_dim key cs)"

section \<open>Python numbers\<close>

datatype exn =
  HDF4Error | ValueError | ZeroDivisionError | OverflowError | IndexError
  | FileNotFoundError | FileExistsError | IsADirectoryError | TypeError

text \<open>
  \<^verbatim>\<open>int(g)\<close> on a group matched by \<^verbatim>\<open>\d+\<close>: the decimal value. CPython from 3.11 on
  refuses a literal of more than 4300 digits with \<^verbatim>\<open>ValueError\<close>.
\<close>

definition digit_value :: "char \<Rightarrow> nat" where
  "digit_value c = of_char c - 48"

definition py_int :: "string \<Rightarrow> exn + nat" where
  "py_int g =
     (if 4300 < length g then Inl ValueError
      else Inr (foldl (\<lambda>a c. 10 * a + digit_value c) 0 g))"

text \<open>
  A Python float is a finite number, an infinity or not-a-number. Finite values are
  modelled by the reals. A result that leaves the range of a double becomes an infinity
  (from \<open>2^1024 - 2^970\<close> on) or zero (up to \<open>2^-1075\<close>); inside the range the rounding of
  the IEEE operations is not modelled, and neither is the sign of zero.
\<close>

datatype pyfloat = Finite real | PosInf | NegInf | NaN

definition float_overflow :: real where
  "float_overflow = 2 ^ 1024 - 2 ^ 970"

definition float_underflow :: real where
  "float_underflow = 1 / 2 ^ 1075"

definition float_of_real :: "real \<Rightarrow> pyfloat" where
  "float_of_real x =
     (if float_overflow \<le> x then PosInf
      else if x \<le> - float_overflow then NegInf
      else if \<bar>x\<bar> \<le> float_underflow then Finite 0
      else Finite x)"

text \<open>\<^verbatim>\<open>x - y\<close> on two floats.\<close>

fun float_sub :: "pyfloat \<Rightarrow> pyfloat \<Rightarrow> pyfloat" where
  "float_sub NaN y = NaN"
| "float_sub x NaN = NaN"
| "float_sub (Finite a) (Finite b) = float_of_real (a - b)"
| "float_sub (Finite a) PosInf = NegInf"
| "float_sub (Finite a) NegInf = PosInf"
| "float_sub PosInf (Finite b) = PosInf"
| "float_sub NegInf (Finite b) = NegInf"
| "float_sub PosInf PosInf = NaN"
| "float_sub NegInf NegInf = NaN"
| "float_sub PosInf NegInf = PosInf"
| "float_sub NegInf PosInf = NegInf"

text \<open>\<^verbatim>\<open>abs(x)\<close> and \<^verbatim>\<open>-x\<close>.\<close>

fun float_abs :: "pyfloat \<Rightarrow> pyfloat" where
  "float_abs (Finite a) = Finite \<bar>a\<bar>"
| "float_abs PosInf = PosInf"
| "float_abs NegInf = PosInf"
| "float_abs NaN = NaN"

fun float_neg :: "pyfloat \<Rightarrow> pyfloat" where
  "float_neg (Finite a) = Finite (- a)"
| "float_neg PosInf = NegInf"
| "float_neg NegInf = PosInf"
| "float_neg NaN = NaN"

text \<open>
  \<^verbatim>\<open>x / n\<close> with a float \<open>x\<close> and an int \<open>n\<close> that is not negative: it raises
  \<^verbatim>\<open>OverflowError\<close> when \<open>n\<close> is too large to convert to a float, that is from
  \<open>2^1024 - 2^970\<close> on, and \<^verbatim>\<open>ZeroDivisionError\<close> for \<open>n = 0\<close>.
\<close>

definition float_int_limit :: nat where
  "float_int_limit = 2 ^ 1024 - 2 ^ 970"

definition true_div :: "pyfloat \<Rightarrow> nat \<Rightarrow> exn + pyfloat" where
  "true_div x n =
     (if n = 0 then Inl ZeroDivisionError
      else if float_int_limit \<le> n then Inl OverflowError
      else (case x of
              Finite a \<Rightarrow> Inr (float_of_real (a / real n))
            | PosInf \<Rightarrow> Inr PosInf
            | NegInf \<Rightarrow> Inr NegInf
            | NaN \<Rightarrow> Inr NaN))"

text \<open>
  \<^verbatim>\<open>float(s)\<close> is a parameter of the model (\<open>None\<close> stands for \<^verbatim>\<open>ValueError\<close>).
  \<open>decimal_float\<close> is the instance used in worked examples: it reads the plain decimal
  literals \<^verbatim>\<open>[-]digits[.digits]\<close> and the words \<^verbatim>\<open>nan\<close>, \<^verbatim>\<open>inf\<close> and \<^verbatim>\<open>-inf\<close>, on
  which it agrees with Python up to rounding, and refuses the rest.
\<close>

definition decimal_digits :: "string \<Rightarrow> nat" where
  "decimal_digits g = foldl (\<lambda>a c. 10 * a + digit_value c) 0 g"

definition unsigned_decimal :: "string \<Rightarrow> real option" where
  "unsigned_decimal s =
     (let ip = takeWhile is_digit s; r = dropWhile is_digit s
      in if ip = [] then None
         else if r = [] then Some (real (decimal_digits ip))
         else if hd r = CHR ''.'' \<and> tl r \<noteq> [] \<and> list_all is_digit (tl r)
              then Some (real (decimal_digits ip) + real (decimal_digits (tl r)) / 10 ^ length (tl r))
         else None)"

definition decimal_float :: "string \<Rightarrow> pyfloat option" where
  "decimal_float s =
     (if s = ''nan'' then Some NaN
      else if s = ''inf'' then Some PosInf
      else if s = ''-inf'' then Some NegInf
      else (case s of
              [] \<Rightarrow> None
            | c # cs \<Rightarrow>
                if c = CHR ''-'' then map_option (\<lambda>x. float_of_real (- x)) (unsigned_decimal cs)
                else map_option float_of_real (unsigned_decimal s)))"

section \<open>The collaborators: archive reader, raster writer, file system\<close>

type_synonym path = string

text \<open>
  A scientific dataset as \<^verbatim>\<open>hdf_ds.select(name)\<close> hands it out: the shape of the grid
  returned by \<^verbatim>\<open>get()\<close> and the attribute dictionary, in its iteration order. The
  attribute values are whatever the reader produces; it never produces \<^verbatim>\<open>None\<close>.
\<close>

datatype 'v sds = SDS (shape: "nat list") (attributes: "(string \<times> 'v) list")

text \<open>
  An opened archive: the text of the global attribute \<^verbatim>\<open>StructMetadata.0\<close> when it is
  present, the keys of \<^verbatim>\<open>hdf_ds.datasets()\<close> in the archive's order, and the outcome
  of reading each dataset (\<open>None\<close> when \<^verbatim>\<open>select\<close> or \<^verbatim>\<open>get\<close> raises).
\<close>

record 'v archive =
  struct_metadata :: "string option"
  dataset_names :: "string list"
  select_get :: "string \<Rightarrow> 'v sds option"

text \<open>\<^verbatim>\<open>global_attrs.get('StructMetadata.0', '')\<close>: an absent block reads as the empty text.\<close>

definition struct_metadata_text :: "'v archive \<Rightarrow> string" where
  "struct_metadata_text hdf_ds = (case struct_metadata hdf_ds of None \<Rightarrow> [] | Some t \<Rightarrow> t)"

type_synonym geotransform = "pyfloat \<times> pyfloat \<times> pyfloat \<times> pyfloat \<times> pyfloat \<times> pyfloat"

text \<open>The argument of \<^verbatim>\<open>SetNoDataValue\<close>: the constant of the code, or an attribute value.\<close>

datatype 'v nodata = NoData_Const int | NoData_Attr 'v

text \<open>
  What the raster writer has been told about one output file. Pixel data and band metadata
  are not represented.
\<close>

record 'v raster =
  raster_x_size :: nat
  raster_y_size :: nat
  raster_geotransform :: "geotransform option"
  raster_projection :: "string option"
  raster_nodata :: "'v nodata option"

datatype 'v content = Other_File | GeoTIFF "'v raster"

text \<open>
  What happens to archive handles, in order. Every \<^verbatim>\<open>SD(...)\<close> that succeeds makes a
  new handle; \<open>SD_read\<close> is a call on the handle (\<^verbatim>\<open>attributes\<close>, \<^verbatim>\<open>datasets\<close>,
  \<^verbatim>\<open>select\<close>), \<open>SD_end\<close> the explicit \<^verbatim>\<open>end()\<close>, and \<open>SD_del\<close> the destructor of the
  handle object, which runs when the function that holds it in a local variable returns
  and closes the handle unless \<^verbatim>\<open>end()\<close> did so before.
\<close>

datatype sd_event = SD_open nat | SD_read nat | SD_end nat | SD_del nat

text \<open>
  The mutable world: regular files by path, directories, and the log of handle events.
  Paths are compared as strings.
\<close>

record 'v state =
  files :: "path \<rightharpoonup> 'v content"
  dirs :: "path set"
  sd_log :: "sd_event list"

text \<open>
  What the code cannot see into: \<^verbatim>\<open>SD(path, SDC.READ)\<close> (\<open>None\<close> when it raises),
  \<^verbatim>\<open>float\<close>, the calendar arithmetic of \<^verbatim>\<open>parse_modis_date\<close> (from the year and the
  day-of-year substrings to the \<^verbatim>\<open>%Y%m%d\<close> text, \<open>None\<close> when anything in it raises),
  whether the GTiff driver is registered, whether \<^verbatim>\<open>driver.Create\<close> returns a dataset for
  a path, which attribute values \<^verbatim>\<open>SetNoDataValue\<close> accepts, and the text that
  \<^verbatim>\<open>ExportToWkt\<close> gives for the sinusoidal definition.
\<close>

record 'v env =
  sd_open :: "path \<Rightarrow> 'v archive option"
  py_float :: "string \<Rightarrow> pyfloat option"
  day_of_year_date :: "string \<Rightarrow> string \<Rightarrow> string option"
  gtiff_driver :: bool
  gdal_create :: "path \<Rightarrow> bool"
  set_nodata_ok :: "'v \<Rightarrow> bool"
  sinusoidal_wkt :: string

subsection \<open>os and os.path (POSIX)\<close>

definition os_path_basename :: "path \<Rightarrow> string" where
  "os_path_basename p = rev (takeWhile (\<lambda>c. c \<noteq> CHR ''/'') (rev p))"

definition os_path_dirname :: "path \<Rightarrow> string" where
  "os_path_dirname p =
     (let head = rev (dropWhile (\<lambda>c. c \<noteq> CHR ''/'') (rev p))
      in if head = [] then head
         else if list_all (\<lambda>c. c = CHR ''/'') head then head
         else rev (dropWhile (\<lambda>c. c = CHR ''/'') (rev head)))"

definition os_path_join :: "path \<Rightarrow> string \<Rightarrow> path" where
  "os_path_join a b =
     (if prefix ''/'' b then b
      else if a = [] then b
      else if last a = CHR ''/'' then a @ b
      else a @ ''/'' @ b)"

definition is_file :: "'v state \<Rightarrow> path \<Rightarrow> bool" where
  "is_file s p = (case files s p of None \<Rightarrow> False | Some f \<Rightarrow> True)"

definition os_path_exists :: "'v state \<Rightarrow> path \<Rightarrow> bool" where
  "os_path_exists s p = (if is_file s p then True else p \<in> dirs s)"

text \<open>
  \<^verbatim>\<open>os.makedirs(name, exist_ok=True)\<close>: the empty path is refused with
  \<^verbatim>\<open>FileNotFoundError\<close>, an existing directory is accepted, a regular file in the way is
  \<^verbatim>\<open>FileExistsError\<close>. Missing ancestors and permissions are not represented.
\<close>

definition os_makedirs :: "path \<Rightarrow> 'v state \<Rightarrow> exn + 'v state" where
  "os_makedirs name s =
     (if name = [] then Inl FileNotFoundError
      else if name \<in> dirs s then Inr s
      else if is_file s name then Inl FileExistsError
      else Inr (s\<lparr>dirs := insert name (dirs s)\<rparr>))"

definition os_remove :: "path \<Rightarrow> 'v state \<Rightarrow> exn + 'v state" where
  "os_remove p s =
     (if is_file s p then Inr (s\<lparr>files := (files s)(p := None)\<rparr>)
      else if p \<in> dirs s then Inl IsADirectoryError
      else Inl FileNotFoundError)"

text \<open>A new handle is named by the length of the log, which no earlier handle has.\<close>

definition sd_start :: "'v state \<Rightarrow> nat \<times> 'v state" where
  "sd_start s = (length (sd_log s), s\<lparr>sd_log := sd_log s @ [SD_open (length (sd_log s))]\<rparr>)"

definition sd_read :: "nat \<Rightarrow> 'v state \<Rightarrow> 'v state" where
  "sd_read h s = s\<lparr>sd_log := sd_log s @ [SD_read h]\<rparr>"

definition sd_end :: "nat \<Rightarrow> 'v state \<Rightarrow> 'v state" where
  "sd_end h s = s\<lparr>sd_log := sd_log s @ [SD_end h]\<rparr>"

definition sd_del :: "nat \<Rightarrow> 'v state \<Rightarrow> 'v state" where
  "sd_del h s = s\<lparr>sd_log := sd_log s @ [SD_del h]\<rparr>"

text \<open>
  A log is in order, from the handles \<open>live\<close> and \<open>gone\<close> before it, when every handle
  it opens is new, every call and every \<^verbatim>\<open>end()\<close> is on a live handle, a destructor
  finds its handle live or gone, and no handle is live at the end.
\<close>

fun handles_ok :: "nat list \<Rightarrow> nat list \<Rightarrow> sd_event list \<Rightarrow> bool" where
  "handles_ok live gone [] = (live = [])"
| "handles_ok live gone (SD_open h # es) =
     (if h \<in> set live then False
      else if h \<in> set gone then False
      else handles_ok (h # live) gone es)"
| "handles_ok live gone (SD_read h # es) =
     (if h \<in> set live then handles_ok live gone es else False)"
| "handles_ok live gone (SD_end h # es) =
     (if h \<in> set live then handles_ok (removeAll h live) (h # gone) es else False)"
| "handles_ok live gone (SD_del h # es) =
     (if h \<in> set live then handles_ok (removeAll h live) (h # gone) es
      else if h \<in> set gone then handles_ok live gone es
      else False)"

section \<open>converter.py\<close>

subsection \<open>parse\_modis\_date\<close>

definition parse_modis_date :: "'v env \<Rightarrow> string \<Rightarrow> string option" where
  "parse_modis_date E filename =
     (case split_on CHR ''.'' filename of
        p0 # date_part # rest \<Rightarrow>
          if length date_part \<noteq> 8 then None
          else if hd date_part \<noteq> CHR ''A'' then None
          else day_of_year_date E (take 4 (drop 1 date_part)) (take 3 (drop 5 date_part))
      | _ \<Rightarrow> None)"

subsection \<open>get\_modis\_projection\_info\<close>

record projection_info =
  geotransform :: "geotransform option"
  projection_wkt :: "string option"
  resolution :: "pyfloat option"

definition to_float :: "(string \<Rightarrow> pyfloat option) \<Rightarrow> string \<Rightarrow> exn + pyfloat" where
  "to_float pf g = (case pf g of None \<Rightarrow> Inl ValueError | Some x \<Rightarrow> Inr x)"

text \<open>
  Lines 308 to 343, from the metadata text to the geotransform and the resolution.
  \<open>Inr None\<close> is the \<^verbatim>\<open>else\<close> branch (a pattern did not match), \<open>Inl e\<close> an exception
  raised by a conversion or a division, which the function's handler turns into
  \<^verbatim>\<open>None\<close>. The vertical resolution is computed and dropped, as in the code.
\<close>

definition extract_geotransform ::
  "(string \<Rightarrow> pyfloat option) \<Rightarrow> string \<Rightarrow> exn + (geotransform \<times> pyfloat) option" where
  "extract_geotransform pf struct_md =
     (case search_point ''UpperLeftPointMtrs'' struct_md of
        None \<Rightarrow> Inr None
      | Some (ul1, ul2) \<Rightarrow>
     (case search_point ''LowerRightMtrs'' struct_md of
        None \<Rightarrow> Inr None
      | Some (lr1, lr2) \<Rightarrow>
     (case search_dim ''XDim'' struct_md of
        None \<Rightarrow> Inr None
      | Some xd \<Rightarrow>
     (case search_dim ''YDim'' struct_md of
        None \<Rightarrow> Inr None
      | Some yd \<Rightarrow>
     (case to_float pf ul1 of Inl e \<Rightarrow> Inl e | Inr ul_x \<Rightarrow>
     (case to_float pf ul2 of Inl e \<Rightarrow> Inl e | Inr ul_y \<Rightarrow>
     (case to_float pf lr1 of Inl e \<Rightarrow> Inl e | Inr lr_x \<Rightarrow>
     (case to_float pf lr2 of Inl e \<Rightarrow> Inl e | Inr lr_y \<Rightarrow>
     (case py_int xd of Inl e \<Rightarrow> Inl e | Inr xdim \<Rightarrow>
     (case py_int yd of Inl e \<Rightarrow> Inl e | Inr ydim \<Rightarrow>
     (case true_div (float_sub lr_x ul_x) xdim of Inl e \<Rightarrow> Inl e | Inr resolution_x \<Rightarrow>
     (case true_div (float_sub lr_y ul_y) ydim of Inl e \<Rightarrow> Inl e | Inr resolution_y \<Rightarrow>
        (let res = float_abs resolution_x
         in Inr (Some ((ul_x, res, Finite 0, ul_y, Finite 0, float_neg res), res)))))))))))))))"

text \<open>
  \<^verbatim>\<open>end()\<close> is called on the two ordinary ways out; the exception handler returns
  without it. On every way out the handle object goes with the frame, and its destructor
  runs.
\<close>

definition get_modis_projection_info ::
  "'v env \<Rightarrow> path \<Rightarrow> 'v state \<Rightarrow> projection_info option \<times> 'v state" where
  "get_modis_projection_info E hdf_file s =
     (case sd_open E hdf_file of
        None \<Rightarrow> (None, s)
      | Some hdf_ds \<Rightarrow>
          (case sd_start s of
             (h, s0) \<Rightarrow>
               (let s1 = sd_read h s0;
                    struct_md = struct_metadata_text hdf_ds
                in case extract_geotransform (py_float E) struct_md of
                     Inl e \<Rightarrow> (None, sd_del h s1)
                   | Inr None \<Rightarrow> (None, sd_del h (sd_end h s1))
                   | Inr (Some (gt, res)) \<Rightarrow>
                       (Some \<lparr>geotransform = Some gt,
                              projection_wkt = Some (sinusoidal_wkt E),
                              resolution = Some res\<rparr>,
                        sd_del h (sd_end h s1)))))"

subsection \<open>hdf\_to\_geotiff\_sinusoidal\<close>

text \<open>Lines 409 to 414: the datasets to process, from the optional request.\<close>

definition process_datasets :: "string list option \<Rightarrow> string list \<Rightarrow> string list" where
  "process_datasets datasets all_datasets =
     (case datasets of
        None \<Rightarrow> filter (\<lambda>ds. contains ''NDVI'' ds) all_datasets
      | Some requested \<Rightarrow> filter (\<lambda>ds. ds \<in> set requested) all_datasets)"

definition safe_dataset_name :: "string \<Rightarrow> string" where
  "safe_dataset_name dataset_name =
     replace_char (CHR 0x5C) CHR ''_''
       (replace_char CHR ''/'' CHR ''_'' (replace_char CHR '' '' CHR ''_'' dataset_name))"

text \<open>
  Lines 428 to 436. A date that is \<^verbatim>\<open>None\<close> or empty takes the second branch, whose
  \<^verbatim>\<open>split('.')[1]\<close> raises \<^verbatim>\<open>IndexError\<close> on a basename without a dot.
\<close>

definition output_filename :: "string \<Rightarrow> string option \<Rightarrow> string \<Rightarrow> exn + string" where
  "output_filename hdf_basename date_str dataset_name =
     (let parts = split_on CHR ''.'' hdf_basename;
          dated = (case date_str of None \<Rightarrow> None | Some d \<Rightarrow> if d = [] then None else Some d)
      in case dated of
           Some d \<Rightarrow>
             (case parts of
                [] \<Rightarrow> Inl IndexError
              | product_type # rest \<Rightarrow>
                  Inr (product_type @ ''_'' @ d @ ''_'' @ safe_dataset_name dataset_name @ ''.tif''))
         | None \<Rightarrow>
             (case parts of
                p0 # p1 # rest \<Rightarrow>
                  Inr (p0 @ ''_'' @ p1 @ ''_'' @ safe_dataset_name dataset_name @ ''.tif'')
              | _ \<Rightarrow> Inl IndexError))"

text \<open>Lines 440 to 442: an existing output path is removed before anything is read.\<close>

definition force_overwrite :: "path \<Rightarrow> 'v state \<Rightarrow> exn + 'v state" where
  "force_overwrite output_path s =
     (if os_path_exists s output_path then os_remove output_path s else Inr s)"

text \<open>Lines 506 to 510: the first attribute whose lowered key mentions no-data.\<close>

fun find_no_data :: "(string \<times> 'v) list \<Rightarrow> 'v option" where
  "find_no_data [] = None"
| "find_no_data ((key, val) # rest) =
     (if contains ''no data'' (lower key) then Some val
      else if contains ''nodata'' (lower key) then Some val
      else find_no_data rest)"

text \<open>Lines 502 to 512: what the band is given as no-data value, if anything.\<close>

definition no_data_value :: "string \<Rightarrow> (string \<times> 'v) list \<Rightarrow> 'v nodata option" where
  "no_data_value dataset_name attrs =
     (if contains ''NDVI'' dataset_name then Some (NoData_Const (- 3000))
      else if contains ''EVI'' dataset_name then Some (NoData_Const (- 3000))
      else map_option NoData_Attr (find_no_data attrs))"

definition nodata_accepted :: "'v env \<Rightarrow> 'v nodata option \<Rightarrow> bool" where
  "nodata_accepted E nd =
     (case nd of
        None \<Rightarrow> True
      | Some (NoData_Const c) \<Rightarrow> True
      | Some (NoData_Attr v) \<Rightarrow> set_nodata_ok E v)"

text \<open>
  Lines 444 to 529, the \<^verbatim>\<open>try\<close> block of one dataset, entered with the output path.
  \<open>None\<close> is a skipped dataset (a \<^verbatim>\<open>continue\<close>, or an exception caught at line 527),
  \<open>Some path\<close> a raster recorded in \<^verbatim>\<open>output_files\<close>. \<^verbatim>\<open>driver.Create\<close> puts the file
  on disk; the geotransform is looked at only afterwards.
\<close>

definition write_geotiff ::
  "'v env \<Rightarrow> 'v archive \<Rightarrow> projection_info option \<Rightarrow> string \<Rightarrow> path \<Rightarrow> 'v state
     \<Rightarrow> path option \<times> 'v state" where
  "write_geotiff E hdf_ds projection_info dataset_name output_path s =
     (case select_get hdf_ds dataset_name of
        None \<Rightarrow> (None, s)
      | Some dataset \<Rightarrow>
          if \<not> gtiff_driver E then (None, s)
          else
            (case shape dataset of
               [y_size, x_size] \<Rightarrow>
                 if \<not> gdal_create E output_path then (None, s)
                 else
                   (let out_ds = \<lparr>raster_x_size = x_size, raster_y_size = y_size,
                                  raster_geotransform = None, raster_projection = None,
                                  raster_nodata = None\<rparr>;
                        s1 = s\<lparr>files := (files s)(output_path \<mapsto> GeoTIFF out_ds)\<rparr>
                    in case (case projection_info of None \<Rightarrow> None | Some p \<Rightarrow> geotransform p) of
                         None \<Rightarrow> (None, s1)
                       | Some gt \<Rightarrow>
                           (let wkt = (case (case projection_info of None \<Rightarrow> None
                                              | Some p \<Rightarrow> projection_wkt p) of
                                         None \<Rightarrow> sinusoidal_wkt E
                                       | Some w \<Rightarrow> if w = [] then sinusoidal_wkt E else w);
                                out_ds1 = out_ds\<lparr>raster_geotransform := Some gt,
                                                 raster_projection := Some wkt\<rparr>;
                                s2 = s1\<lparr>files := (files s1)(output_path \<mapsto> GeoTIFF out_ds1)\<rparr>;
                                nd = no_data_value dataset_name (attributes dataset)
                            in if \<not> nodata_accepted E nd then (None, s2)
                               else (Some output_path,
                                     s2\<lparr>files := (files s2)(output_path \<mapsto>
                                          GeoTIFF (out_ds1\<lparr>raster_nodata := nd\<rparr>))\<rparr>)))
             | _ \<Rightarrow> (None, s)))"

text \<open>
  One turn of the loop of line 423, for the archive \<open>hdf_ds\<close> opened as handle \<open>h\<close>.
  \<open>Inl e\<close> is an exception that leaves the loop for the handler of line 534: the name
  computation and the removal are outside the inner \<^verbatim>\<open>try\<close>. The \<^verbatim>\<open>try\<close> block
  begins with \<^verbatim>\<open>hdf_ds.select\<close>, the call on the handle that is logged here.
\<close>

definition convert_dataset ::
  "'v env \<Rightarrow> 'v archive \<Rightarrow> nat \<Rightarrow> projection_info option \<Rightarrow> string \<Rightarrow> string option
     \<Rightarrow> path \<Rightarrow> string \<Rightarrow> 'v state \<Rightarrow> (exn + path option) \<times> 'v state" where
  "convert_dataset E hdf_ds h projection_info hdf_basename date_str output_dir dataset_name s =
     (case output_filename hdf_basename date_str dataset_name of
        Inl e \<Rightarrow> (Inl e, s)
      | Inr name \<Rightarrow>
          (let output_path = os_path_join output_dir name
           in case force_overwrite output_path s of
                Inl e \<Rightarrow> (Inl e, s)
              | Inr s1 \<Rightarrow>
                  (case write_geotiff E hdf_ds projection_info dataset_name output_path
                          (sd_read h s1) of
                     (r, s2) \<Rightarrow> (Inr r, s2))))"

fun convert_datasets ::
  "'v env \<Rightarrow> 'v archive \<Rightarrow> nat \<Rightarrow> projection_info option \<Rightarrow> string \<Rightarrow> string option
     \<Rightarrow> path \<Rightarrow> string list \<Rightarrow> path list \<Rightarrow> 'v state \<Rightarrow> (exn + path list) \<times> 'v state" where
  "convert_datasets E hdf_ds h projection_info hdf_basename date_str output_dir [] output_files s =
     (Inr output_files, s)"
| "convert_datasets E hdf_ds h projection_info hdf_basename date_str output_dir (n # ns)
     output_files s =
     (case convert_dataset E hdf_ds h projection_info hdf_basename date_str output_dir n s of
        (Inl e, s1) \<Rightarrow> (Inl e, s1)
      | (Inr None, s1) \<Rightarrow>
          convert_datasets E hdf_ds h projection_info hdf_basename date_str output_dir ns
            output_files s1
      | (Inr (Some output_path), s1) \<Rightarrow>
          convert_datasets E hdf_ds h projection_info hdf_basename date_str output_dir ns
            (output_files @ [output_path]) s1)"

text \<open>
  The whole function. \<open>Inl e\<close> is an exception that leaves the function (only
  \<^verbatim>\<open>os.makedirs\<close>, which runs before the \<^verbatim>\<open>try\<close>); every exception inside the
  \<^verbatim>\<open>try\<close> gives the empty list, and \<^verbatim>\<open>hdf_ds.end()\<close> is reached only when the loop
  ends without one. The handle is first used for \<^verbatim>\<open>datasets()\<close>; its destructor runs on
  every return that follows the opening.
\<close>

definition hdf_to_geotiff_sinusoidal ::
  "'v env \<Rightarrow> path \<Rightarrow> path option \<Rightarrow> string list option \<Rightarrow> 'v state
     \<Rightarrow> (exn + path list) \<times> 'v state" where
  "hdf_to_geotiff_sinusoidal E hdf_file output_dir datasets s =
     (if \<not> os_path_exists s hdf_file then (Inr [], s)
      else
        (let out_dir = (case output_dir of None \<Rightarrow> os_path_dirname hdf_file | Some d \<Rightarrow> d)
         in case os_makedirs out_dir s of
              Inl e \<Rightarrow> (Inl e, s)
            | Inr s1 \<Rightarrow>
                (let hdf_basename = os_path_basename hdf_file;
                     date_str = parse_modis_date E hdf_basename
                 in case get_modis_projection_info E hdf_file s1 of
                      (projection_info, s2) \<Rightarrow>
                        (case sd_open E hdf_file of
                           None \<Rightarrow> (Inr [], s2)
                         | Some hdf_ds \<Rightarrow>
                             (case sd_start s2 of
                                (h, s3) \<Rightarrow>
                                  (case convert_datasets E hdf_ds h projection_info hdf_basename
                                          date_str out_dir
                                          (process_datasets datasets (dataset_names hdf_ds)) []
                                          (sd_read h s3) of
                                     (Inl e, s4) \<Rightarrow> (Inr [], sd_del h s4)
                                   | (Inr output_files, s4) \<Rightarrow>
                                       (Inr output_files, sd_del h (sd_end h s4))))))))"

subsection \<open>analyze\_hdf\_file\<close>

text \<open>
  The \<^verbatim>\<open>resolution\<close> entry of the report: still \<^verbatim>\<open>None\<close>, the text
  \<^verbatim>\<open>unknown\<close>, or the formatted number of metres.
\<close>

datatype resolution_text = Resolution_None | Resolution_unknown | Resolution_metres pyfloat

text \<open>
  The report. Of each data field the name and the shape are kept; the file size, the tile
  and the per-field statistics are not represented.
\<close>

record file_info =
  info_path :: path
  info_basename :: string
  info_resolution :: resolution_text
  info_data_fields :: "(string \<times> nat list) list"
  info_date :: "string option"
  info_product_type :: "string option"
  info_total_datasets :: "nat option"

text \<open>Lines 85 to 99: three patterns only, the same conversions, the same division.\<close>

definition analyze_resolution ::
  "(string \<Rightarrow> pyfloat option) \<Rightarrow> string \<Rightarrow> exn + resolution_text" where
  "analyze_resolution pf struct_md =
     (case search_point ''UpperLeftPointMtrs'' struct_md of
        None \<Rightarrow> Inr Resolution_unknown
      | Some (ul1, ul2) \<Rightarrow>
     (case search_point ''LowerRightMtrs'' struct_md of
        None \<Rightarrow> Inr Resolution_unknown
      | Some (lr1, lr2) \<Rightarrow>
     (case search_dim ''XDim'' struct_md of
        None \<Rightarrow> Inr Resolution_unknown
      | Some xd \<Rightarrow>
     (case to_float pf ul1 of Inl e \<Rightarrow> Inl e | Inr ul_x \<Rightarrow>
     (case to_float pf lr1 of Inl e \<Rightarrow> Inl e | Inr lr_x \<Rightarrow>
     (case py_int xd of Inl e \<Rightarrow> Inl e | Inr xdim \<Rightarrow>
     (case true_div (float_sub lr_x ul_x) xdim of Inl e \<Rightarrow> Inl e | Inr r \<Rightarrow>
        Inr (Resolution_metres (float_abs r)))))))))"

text \<open>
  Lines 102 to 122: every dataset is selected on the handle \<open>h\<close>; one that cannot be read
  is left out of the list.
\<close>

fun data_fields ::
  "'v archive \<Rightarrow> nat \<Rightarrow> string list \<Rightarrow> 'v state \<Rightarrow> (string \<times> nat list) list \<times> 'v state" where
  "data_fields hdf_ds h [] s = ([], s)"
| "data_fields hdf_ds h (dataset_name # rest) s =
     (case data_fields hdf_ds h rest (sd_read h s) of
        (found, s1) \<Rightarrow>
          (case select_get hdf_ds dataset_name of
             None \<Rightarrow> (found, s1)
           | Some dataset \<Rightarrow> ((dataset_name, shape dataset) # found, s1)))"

text \<open>
  Every exception inside the \<^verbatim>\<open>try\<close> is printed and swallowed: the function returns
  the report as far as it got, and never raises. The handle is used for
  \<^verbatim>\<open>attributes()\<close>, then for \<^verbatim>\<open>datasets()\<close> and the selections; \<^verbatim>\<open>end()\<close> is
  called on the ordinary way out only, the destructor runs on every return.
\<close>

definition analyze_hdf_file :: "'v env \<Rightarrow> path \<Rightarrow> 'v state \<Rightarrow> file_info \<times> 'v state" where
  "analyze_hdf_file E hdf_file s =
     (let file_info = \<lparr>info_path = hdf_file,
                       info_basename = os_path_basename hdf_file,
                       info_resolution = Resolution_None,
                       info_data_fields = [],
                       info_date = parse_modis_date E (os_path_basename hdf_file),
                       info_product_type =
                         (case split_on CHR ''.'' (os_path_basename hdf_file) of
                            [] \<Rightarrow> None | p0 # rest \<Rightarrow> Some p0),
                       info_total_datasets = None\<rparr>
      in case sd_open E hdf_file of
           None \<Rightarrow> (file_info, s)
         | Some hdf_ds \<Rightarrow>
             (case sd_start s of
                (h, s0) \<Rightarrow>
                  (let s1 = sd_read h s0;
                       struct_md = struct_metadata_text hdf_ds
                   in case analyze_resolution (py_float E) struct_md of
                        Inl e \<Rightarrow> (file_info, sd_del h s1)
                      | Inr r \<Rightarrow>
                          (case data_fields hdf_ds h (dataset_names hdf_ds) (sd_read h s1) of
                             (found, s2) \<Rightarrow>
                               (file_info\<lparr>info_resolution := r,
                                          info_data_fields := found,
                                          info_total_datasets :=
                                            Some (length (dataset_names hdf_ds))\<rparr>,
                                sd_del h (sd_end h s2))))))"

subsection \<open>batch\_convert\_hdf\_files\<close>






section \<open>skill.py\<close>

datatype status = Success | Error

datatype message =
  File_not_found path | Found_datasets nat | Analysis_failed exn
  | Converted_datasets nat | No_files_converted | Conversion_failed exn
  | Missing_input_file

record response =
  status :: status
  message :: message
  output_files :: "path list option"
  file_info :: "file_info option"

definition error_response :: "message \<Rightarrow> response" where
  "error_response m = \<lparr>status = Error, message = m, output_files = None, file_info = None\<rparr>"

definition analyze :: "'v env \<Rightarrow> path \<Rightarrow> 'v state \<Rightarrow> response \<times> 'v state" where
  "analyze E input_file s =
     (if \<not> os_path_exists s input_file then (error_response (File_not_found input_file), s)
      else
        (case analyze_hdf_file E input_file s of
           (fi, s1) \<Rightarrow>
             (\<lparr>status = Success,
               message = Found_datasets (length (info_data_fields fi)),
               output_files = None,
               file_info = Some fi\<rparr>, s1)))"

definition convert ::
  "'v env \<Rightarrow> path \<Rightarrow> path \<Rightarrow> string list option \<Rightarrow> 'v state \<Rightarrow> response \<times> 'v state" where
  "convert E input_file output_dir datasets s =
     (if \<not> os_path_exists s input_file then (error_response (File_not_found input_file), s)
      else
        (case os_makedirs output_dir s of
           Inl e \<Rightarrow> (error_response (Conversion_failed e), s)
         | Inr s1 \<Rightarrow>
             (case hdf_to_geotiff_sinusoidal E input_file (Some output_dir) datasets s1 of
                (Inl e, s2) \<Rightarrow> (error_response (Conversion_failed e), s2)
              | (Inr created, s2) \<Rightarrow>
                  if created = [] then (error_response No_files_converted, s2)
                  else (\<lparr>status = Success,
                         message = Converted_datasets (length created),
                         output_files = Some created,
                         file_info = None\<rparr>, s2))))"

text \<open>The request dictionary: a missing key is \<open>None\<close>, \<^verbatim>\<open>analyze_only\<close> defaults to false.\<close>

record request =
  req_input_file :: "path option"
  req_output_dir :: "path option"
  req_datasets :: "string list option"
  req_analyze_only :: bool

definition handle_hdf_to_geotiff_conversion ::
  "'v env \<Rightarrow> request \<Rightarrow> 'v state \<Rightarrow> response \<times> 'v state" where
  "handle_hdf_to_geotiff_conversion E request s =
     (case (case req_input_file request of None \<Rightarrow> None
            | Some f \<Rightarrow> if f = [] then None else Some f) of
        None \<Rightarrow> (error_response Missing_input_file, s)
      | Some input_file \<Rightarrow>
          if req_analyze_only request then analyze E input_file s
          else
            (let output_dir =
                   (case req_output_dir request of
                      None \<Rightarrow> os_path_dirname input_file
                    | Some d \<Rightarrow> if d = [] then os_path_dirname input_file else d)
             in convert E input_file output_dir (req_datasets request) s))"

section \<open>A worked tile\<close>

text \<open>
  One MOD13Q1 tile, used wherever a statement is evaluated: its path, the lines of its
  structural metadata that the code reads, and datasets whose attribute values are
  integers. The environment opens the given archive at the given path only, reads floats
  as plain decimals, knows that day 209 of 2015 is 28 July, and has a raster writer that
  accepts everything.
\<close>

definition tile_path :: path where
  "tile_path = ''/data/MOD13Q1.A2015209.h12v04.061.hdf''"

definition tile_metadata :: string where
  "tile_metadata =
     ''XDim=4800 YDim=4800 UpperLeftPointMtrs=(-10007554.7,5559752.6) LowerRightMtrs=(-8895604.2,4447802.1)''"

definition zero_xdim_metadata :: string where
  "zero_xdim_metadata =
     ''XDim=0 YDim=4800 UpperLeftPointMtrs=(-10007554.7,5559752.6) LowerRightMtrs=(-8895604.2,4447802.1)''"



definition no_lower_right_metadata :: string where
  "no_lower_right_metadata =
     ''XDim=4800 YDim=4800 UpperLeftPointMtrs=(-10007554.7,5559752.6)''"

definition vi_grid :: "int sds" where
  "vi_grid = SDS [4800, 4800] [(''_FillValue'', - 3000), (''NoData_Value'', - 9999)]"

definition quality_grid :: "int sds" where
  "quality_grid = SDS [4800, 4800] [(''units'', 0), (''Legend NoData Value'', 65535), (''nodata'', 7)]"

definition stack_grid :: "int sds" where
  "stack_grid = SDS [2, 4800, 4800] [(''_FillValue'', - 3000)]"

definition tile_datasets :: "string \<Rightarrow> int sds option" where
  "tile_datasets n =
     (if n = ''250m_16_days_NDVI'' then Some vi_grid
      else if n = ''250m_16_days_EVI'' then Some vi_grid
      else if n = ''250m_16_days_VI_Quality'' then Some quality_grid
      else if n = ''NDVI_stack'' then Some stack_grid
      else None)"

definition tile_archive :: "string option \<Rightarrow> string list \<Rightarrow> int archive" where
  "tile_archive md names =
     \<lparr>struct_metadata = md, dataset_names = names, select_get = tile_datasets\<rparr>"

definition modis_names :: "string list" where
  "modis_names = [''250m_16_days_NDVI'', ''250m_16_days_EVI'', ''250m_16_days_VI_Quality'']"

definition tile_env :: "path \<Rightarrow> int archive option \<Rightarrow> int env" where
  "tile_env p a =
     \<lparr>sd_open = (\<lambda>q. if q = p then a else None),
      py_float = decimal_float,
      day_of_year_date =
        (\<lambda>y d. if y = ''2015'' then (if d = ''209'' then Some ''20150728'' else None) else None),
      gtiff_driver = True,
      gdal_create = (\<lambda>q. True),
      set_nodata_ok = (\<lambda>v. True),
      sinusoidal_wkt = ''PROJCS[unnamed,PROJECTION[Sinusoidal]]''\<rparr>"

definition tile_disk :: "int state" where
  "tile_disk = \<lparr>files = [tile_path \<mapsto> Other_File], dirs = {''/data''}, sd_log = []\<rparr>"

definition ndvi_tif :: path where
  "ndvi_tif = ''/data/MOD13Q1_20150728_250m_16_days_NDVI.tif''"

definition quality_tif :: path where
  "quality_tif = ''/data/MOD13Q1_20150728_250m_16_days_VI_Quality.tif''"

definition stack_tif :: path where
  "stack_tif = ''/data/MOD13Q1_20150728_NDVI_stack.tif''"

definition tile_projection :: projection_info where
  "tile_projection =
     \<lparr>geotransform = Some (Finite (- 10007554.7), Finite (1111950.5 / 4800), Finite 0,
                            Finite 5559752.6, Finite 0, Finite (- (1111950.5 / 4800))),
      projection_wkt = Some ''PROJCS[unnamed,PROJECTION[Sinusoidal]]'',
      resolution = Some (Finite (1111950.5 / 4800))\<rparr>"

text \<open>The same disk with an earlier output in place of the stacked layer's raster.\<close>

definition old_output_disk :: "int state" where
  "old_output_disk =
     \<lparr>files = [tile_path \<mapsto> Other_File, stack_tif \<mapsto> Other_File],
      dirs = {''/data''}, sd_log = []\<rparr>"

text \<open>The same disk with a directory where the stacked layer's raster would go.\<close>

definition blocked_disk :: "int state" where
  "blocked_disk =
     \<lparr>files = [tile_path \<mapsto> Other_File], dirs = {''/data'', stack_tif}, sd_log = []\<rparr>"

definition stack_first :: "string list" where
  "stack_first = [''NDVI_stack'', ''250m_16_days_NDVI'']"


text \<open>The same disk with the georeferenced NDVI raster of an earlier conversion.\<close>

definition earlier_raster :: "int raster" where
  "earlier_raster =
     \<lparr>raster_x_size = 4800, raster_y_size = 4800,
      raster_geotransform = geotransform tile_projection,
      raster_projection = projection_wkt tile_projection,
      raster_nodata = Some (NoData_Const (- 3000))\<rparr>"

definition earlier_ndvi_disk :: "int state" where
  "earlier_ndvi_disk =
     \<lparr>files = [tile_path \<mapsto> Other_File, ndvi_tif \<mapsto> GeoTIFF earlier_raster],
      dirs = {''/data''}, sd_log = []\<rparr>"

text \<open>An archive whose name has no dot, and the tile given by its bare file name.\<close>

definition plain_path :: path where
  "plain_path = ''/data/archive''"

definition plain_disk :: "int state" where
  "plain_disk = \<lparr>files = [plain_path \<mapsto> Other_File], dirs = {''/data''}, sd_log = []\<rparr>"

definition bare_path :: path where
  "bare_path = ''MOD13Q1.A2015209.h12v04.061.hdf''"

definition bare_disk :: "int state" where
  "bare_disk = \<lparr>files = [bare_path \<mapsto> Other_File], dirs = {}, sd_log = []\<rparr>"

definition bare_request :: request where
  "bare_request =
     \<lparr>req_input_file = Some bare_path, req_output_dir = None, req_datasets = None,
      req_analyze_only = False\<rparr>"

section \<open>Facts about the collaborators and the worked tile\<close>

lemma contains_sublist: "contains sub s \<longleftrightarrow> sublist sub s"
  by (induction s) (auto simp: sublist_Cons_right)

lemma contains_iff: "contains sub s \<longleftrightarrow> (\<exists>pre suf. s = pre @ sub @ suf)"
  by (simp add: contains_sublist sublist_def)

lemma sd_start_eq: "sd_start s = (length (sd_log s), snd (sd_start s))"
  by (simp add: sd_start_def)

lemma handle_files [simp]:
  "files (snd (sd_start s)) = files s" "files (sd_read h s) = files s"
  "files (sd_end h s) = files s" "files (sd_del h s) = files s"
  by (simp_all add: sd_start_def sd_read_def sd_end_def sd_del_def)

lemma handle_dirs [simp]:
  "dirs (snd (sd_start s)) = dirs s" "dirs (sd_read h s) = dirs s"
  "dirs (sd_end h s) = dirs s" "dirs (sd_del h s) = dirs s"
  by (simp_all add: sd_start_def sd_read_def sd_end_def sd_del_def)

lemma os_path_exists_cong:
  "files s = files s' \<Longrightarrow> dirs s = dirs s' \<Longrightarrow> os_path_exists s p = os_path_exists s' p"
  by (simp add: os_path_exists_def is_file_def)

lemma os_path_exists_handles [simp]:
  "os_path_exists (snd (sd_start s)) p = os_path_exists s p"
  "os_path_exists (sd_read h s) p = os_path_exists s p"
  "os_path_exists (sd_end h s) p = os_path_exists s p"
  "os_path_exists (sd_del h s) p = os_path_exists s p"
  by (simp_all add: os_path_exists_def is_file_def)

lemma files_get_modis_projection_info:
  "files (snd (get_modis_projection_info E f s)) = files s"
  by (simp add: get_modis_projection_info_def sd_start_def sd_read_def sd_end_def sd_del_def
        Let_def split: option.splits sum.splits prod.splits)

lemma dirs_get_modis_projection_info:
  "dirs (snd (get_modis_projection_info E f s)) = dirs s"
  by (simp add: get_modis_projection_info_def sd_start_def sd_read_def sd_end_def sd_del_def
        Let_def split: option.splits sum.splits prod.splits)

lemma dirs_os_makedirs_exists:
  "p \<in> dirs s \<Longrightarrow> p \<noteq> [] \<Longrightarrow> os_makedirs p s = Inr s"
  by (simp add: os_makedirs_def)

lemma files_os_makedirs: "os_makedirs d s = Inr s1 \<Longrightarrow> files s1 = files s"
  by (auto simp: os_makedirs_def split: if_splits)

lemma tile_upper_left:
  "search_point ''UpperLeftPointMtrs'' tile_metadata = Some (''-10007554.7'', ''5559752.6'')"
  by (simp add: tile_metadata_def match_point_at_def)

lemma tile_lower_right:
  "search_point ''LowerRightMtrs'' tile_metadata = Some (''-8895604.2'', ''4447802.1'')"
  by (simp add: tile_metadata_def match_point_at_def)

lemma tile_xdim: "search_dim ''XDim'' tile_metadata = Some ''4800''"
  by (simp add: tile_metadata_def match_dim_at_def is_digit_def)

lemma tile_ydim: "search_dim ''YDim'' tile_metadata = Some ''4800''"
  by (simp add: tile_metadata_def match_dim_at_def is_digit_def)

lemma tile_exists: "os_path_exists tile_disk tile_path"
  by (simp add: os_path_exists_def is_file_def tile_disk_def)

lemma tile_makedirs: "os_makedirs ''/data'' tile_disk = Inr tile_disk"
  by (simp add: os_makedirs_def tile_disk_def)

lemma tile_dirname: "os_path_dirname tile_path = ''/data''"
  by (simp add: os_path_dirname_def tile_path_def)

lemma tile_basename: "os_path_basename tile_path = ''MOD13Q1.A2015209.h12v04.061.hdf''"
  by (simp add: os_path_basename_def tile_path_def)

lemma tile_date:
  "parse_modis_date (tile_env p a) ''MOD13Q1.A2015209.h12v04.061.hdf'' = Some ''20150728''"
  by (simp add: parse_modis_date_def tile_env_def)

lemma tile_sd_open: "sd_open (tile_env p a) p = a"
  by (simp add: tile_env_def)

subsection \<open>What the patterns match\<close>

text \<open>
  The two search functions against the regular expressions they stand for:
  \<^verbatim>\<open>KEY=\(([^,]+),([^)]+)\)\<close> finds a match exactly when the text has the key, an
  opening parenthesis, a non-empty run without comma, a comma, a non-empty run without
  closing parenthesis and a closing parenthesis; \<^verbatim>\<open>KEY=(\d+)\<close> exactly when the key
  and the equals sign are followed by a digit.
\<close>

lemma takeWhile_run:
  assumes "dropWhile P xs \<noteq> []"
  shows "\<exists>rest. xs = takeWhile P xs @ hd (dropWhile P xs) # rest \<and> \<not> P (hd (dropWhile P xs))"
proof -
  obtain y ys where d: "dropWhile P xs = y # ys" using assms by (cases "dropWhile P xs") auto
  have "xs = takeWhile P xs @ dropWhile P xs" by simp
  then have "xs = takeWhile P xs @ y # ys" using d by simp
  moreover have "\<not> P y" using d hd_dropWhile[of P xs] by auto
  ultimately show ?thesis using d by auto
qed

lemma takeWhile_upto:
  assumes "\<forall>x\<in>set g. P x" and "\<not> P d"
  shows "takeWhile P (g @ d # rest) = g" and "dropWhile P (g @ d # rest) = d # rest"
  using assms by (simp_all add: takeWhile_append2 dropWhile_append2)

lemma match_point_at_iff:
  "match_point_at key s = Some (g1, g2) \<longleftrightarrow>
     (\<exists>rest. s = key @ ''=('' @ g1 @ '','' @ g2 @ '')'' @ rest
        \<and> g1 \<noteq> [] \<and> CHR '','' \<notin> set g1 \<and> g2 \<noteq> [] \<and> CHR '')'' \<notin> set g2)"
proof
  assume m: "match_point_at key s = Some (g1, g2)"
  let ?r = "drop (length key + 2) s"
  let ?P = "\<lambda>c. c \<noteq> CHR '',''"
  let ?Q = "\<lambda>c. c \<noteq> CHR '')''"
  from m have p: "prefix (key @ ''=('') s"
    by (simp add: match_point_at_def split: if_splits)
  then obtain r where s: "s = (key @ ''=('') @ r" by (auto simp: prefix_def)
  then have r: "?r = r" by simp
  from m p r have g1: "g1 = takeWhile ?P r" "g1 \<noteq> []" "dropWhile ?P r \<noteq> []"
    by (auto simp: match_point_at_def Let_def split: if_splits)
  from takeWhile_run[OF g1(3)] obtain r2 where r2: "r = g1 @ CHR '','' # r2"
    using g1(1) by auto
  have nc: "\<forall>x\<in>set g1. x \<noteq> CHR '',''"
    using g1(1) by (auto dest: set_takeWhileD)
  have "dropWhile ?P r = CHR '','' # r2"
    using takeWhile_upto(2)[OF nc, of "CHR '',''" r2] r2 by simp
  then have tl: "tl (dropWhile ?P r) = r2" by simp
  from m p r tl have g2: "g2 = takeWhile ?Q r2" "g2 \<noteq> []" "dropWhile ?Q r2 \<noteq> []"
    by (auto simp: match_point_at_def Let_def split: if_splits)
  from takeWhile_run[OF g2(3)] obtain r3 where r3: "r2 = g2 @ CHR '')'' # r3"
    using g2(1) by auto
  have "CHR '','' \<notin> set g1" using nc by auto
  moreover have "CHR '')'' \<notin> set g2" using g2(1) by (auto dest: set_takeWhileD)
  ultimately show "\<exists>rest. s = key @ ''=('' @ g1 @ '','' @ g2 @ '')'' @ rest
        \<and> g1 \<noteq> [] \<and> CHR '','' \<notin> set g1 \<and> g2 \<noteq> [] \<and> CHR '')'' \<notin> set g2"
    using s r2 r3 g1(2) g2(2) by auto
next
  assume "\<exists>rest. s = key @ ''=('' @ g1 @ '','' @ g2 @ '')'' @ rest
        \<and> g1 \<noteq> [] \<and> CHR '','' \<notin> set g1 \<and> g2 \<noteq> [] \<and> CHR '')'' \<notin> set g2"
  then obtain rest where s: "s = key @ ''=('' @ g1 @ '','' @ g2 @ '')'' @ rest"
    and n: "g1 \<noteq> []" "CHR '','' \<notin> set g1" "g2 \<noteq> []" "CHR '')'' \<notin> set g2"
    by blast
  have p: "prefix (key @ ''=('') s" using s by (simp add: prefix_def)
  have d: "drop (length key + 2) s = g1 @ CHR '','' # (g2 @ CHR '')'' # rest)"
    using s by simp
  have a1: "\<forall>x\<in>set g1. x \<noteq> CHR '',''" using n(2) by auto
  have a2: "\<forall>x\<in>set g2. x \<noteq> CHR '')''" using n(4) by auto
  show "match_point_at key s = Some (g1, g2)"
    unfolding match_point_at_def Let_def d
    using p n(1) n(3) takeWhile_upto[OF a1, of "CHR '',''"] takeWhile_upto[OF a2, of "CHR '')''"]
    by simp
qed

lemma search_point_None_iff:
  "search_point key s = None \<longleftrightarrow> (\<forall>suf. suffix suf s \<longrightarrow> match_point_at key suf = None)"
  by (induction s) (auto simp: suffix_Cons split: option.splits)

lemma search_point_matches:
  "search_point key s \<noteq> None \<longleftrightarrow>
     (\<exists>pre g1 g2 rest. s = pre @ key @ ''=('' @ g1 @ '','' @ g2 @ '')'' @ rest
        \<and> g1 \<noteq> [] \<and> CHR '','' \<notin> set g1 \<and> g2 \<noteq> [] \<and> CHR '')'' \<notin> set g2)"
  (is "?L \<longleftrightarrow> ?R")
proof
  assume ?L
  then obtain suf where suf: "suffix suf s" "match_point_at key suf \<noteq> None"
    by (auto simp: search_point_None_iff)
  then obtain g1 g2 where m: "match_point_at key suf = Some (g1, g2)" by auto
  from suf(1) obtain pre where pre: "s = pre @ suf" by (auto simp: suffix_def)
  from iffD1[OF match_point_at_iff m]
  obtain rest where r: "suf = key @ ''=('' @ g1 @ '','' @ g2 @ '')'' @ rest"
    "g1 \<noteq> []" "CHR '','' \<notin> set g1" "g2 \<noteq> []" "CHR '')'' \<notin> set g2"
    by (elim exE conjE)
  have "s = pre @ key @ ''=('' @ g1 @ '','' @ g2 @ '')'' @ rest"
    using pre r(1) by simp
  with r(2-5) show ?R by (intro exI conjI)
next
  assume ?R
  then obtain pre g1 g2 rest where s: "s = pre @ key @ ''=('' @ g1 @ '','' @ g2 @ '')'' @ rest"
    and n: "g1 \<noteq> []" "CHR '','' \<notin> set g1" "g2 \<noteq> []" "CHR '')'' \<notin> set g2"
    by blast
  have "match_point_at key (key @ ''=('' @ g1 @ '','' @ g2 @ '')'' @ rest) = Some (g1, g2)"
    by (rule iffD2[OF match_point_at_iff], rule exI[of _ rest]) (simp add: n)
  moreover have "suffix (key @ ''=('' @ g1 @ '','' @ g2 @ '')'' @ rest) s"
    unfolding s by (rule suffix_appendI) simp
  ultimately have "\<not> (\<forall>suf. suffix suf s \<longrightarrow> match_point_at key suf = None)"
    by (intro notI) (drule spec, drule (1) mp, simp)
  then show ?L
    by (simp only: search_point_None_iff) simp
qed

lemma match_dim_at_iff:
  "match_dim_at key s = Some g \<longleftrightarrow>
     (\<exists>rest. s = key @ ''='' @ g @ rest \<and> g \<noteq> [] \<and> list_all is_digit g
        \<and> (case rest of [] \<Rightarrow> True | c # cs \<Rightarrow> \<not> is_digit c))"
proof
  assume m: "match_dim_at key s = Some g"
  from m have p: "prefix (key @ ''='') s"
    by (simp add: match_dim_at_def split: if_splits)
  then obtain r where s: "s = (key @ ''='') @ r" by (auto simp: prefix_def)
  from m p s have g: "g = takeWhile is_digit r" "g \<noteq> []"
    by (auto simp: match_dim_at_def Let_def split: if_splits)
  have r: "r = g @ dropWhile is_digit r" using g(1) by simp
  have d: "list_all is_digit g" using g(1) by (auto simp: list_all_iff dest: set_takeWhileD)
  have e: "case dropWhile is_digit r of [] \<Rightarrow> True | c # cs \<Rightarrow> \<not> is_digit c"
  proof (cases "dropWhile is_digit r")
    case Nil
    show ?thesis by (simp only: Nil list.case)
  next
    case (Cons y ys)
    then have "\<not> is_digit y" using hd_dropWhile[of is_digit r] by simp
    then show ?thesis unfolding Cons by simp
  qed
  have "s = key @ ''='' @ g @ dropWhile is_digit r" using s r by simp
  with g(2) d e show "\<exists>rest. s = key @ ''='' @ g @ rest \<and> g \<noteq> [] \<and> list_all is_digit g
        \<and> (case rest of [] \<Rightarrow> True | c # cs \<Rightarrow> \<not> is_digit c)"
    by blast
next
  assume "\<exists>rest. s = key @ ''='' @ g @ rest \<and> g \<noteq> [] \<and> list_all is_digit g
        \<and> (case rest of [] \<Rightarrow> True | c # cs \<Rightarrow> \<not> is_digit c)"
  then obtain rest where s: "s = key @ ''='' @ g @ rest" and n: "g \<noteq> []" "list_all is_digit g"
    and e: "case rest of [] \<Rightarrow> True | c # cs \<Rightarrow> \<not> is_digit c"
    by blast
  have p: "prefix (key @ ''='') s" using s by (simp add: prefix_def)
  have d: "drop (length key + 1) s = g @ rest" using s by simp
  have t: "takeWhile is_digit (g @ rest) = g"
    using n(2) e by (cases rest) (auto simp: list_all_iff takeWhile_append2)
  show "match_dim_at key s = Some g"
    unfolding match_dim_at_def Let_def d t using p n(1) by simp
qed

lemma search_dim_None_iff:
  "search_dim key s = None \<longleftrightarrow> (\<forall>suf. suffix suf s \<longrightarrow> match_dim_at key suf = None)"
  by (induction s) (auto simp: suffix_Cons split: option.splits)

lemma search_dim_matches:
  "search_dim key s \<noteq> None \<longleftrightarrow>
     (\<exists>pre d rest. s = pre @ key @ ''='' @ d # rest \<and> is_digit d)"
  (is "?L \<longleftrightarrow> ?R")
proof
  assume ?L
  then obtain suf g where suf: "suffix suf s" "match_dim_at key suf = Some g"
    by (auto simp: search_dim_None_iff)
  from suf(1) obtain pre where pre: "s = pre @ suf" by (auto simp: suffix_def)
  from iffD1[OF match_dim_at_iff suf(2)]
  obtain rest where r: "suf = key @ ''='' @ g @ rest" "g \<noteq> []" "list_all is_digit g"
    by (elim exE conjE)
  then obtain d ds where g: "g = d # ds" by (cases g) auto
  with r pre show ?R by auto
next
  assume ?R
  then obtain pre d rest where s: "s = pre @ key @ ''='' @ d # rest" and d: "is_digit d"
    by blast
  have p: "prefix (key @ ''='') (key @ ''='' @ d # rest)" by (simp add: prefix_def)
  have "match_dim_at key (key @ ''='' @ d # rest) \<noteq> None"
    using p d by (simp add: match_dim_at_def Let_def)
  moreover have "suffix (key @ ''='' @ d # rest) s"
    unfolding s by (rule suffix_appendI) simp
  ultimately have "\<not> (\<forall>suf. suffix suf s \<longrightarrow> match_dim_at key suf = None)"
    by (intro notI) (drule spec, drule (1) mp, simp)
  then show ?L
    by (simp only: search_dim_None_iff) simp
qed

lemma search_point_sublist:
  assumes "\<not> sublist key s"
  shows "search_point key s = None"
proof (rule ccontr)
  assume "search_point key s \<noteq> None"
  then obtain pre g1 g2 rest where
    "s = pre @ key @ ''=('' @ g1 @ '','' @ g2 @ '')'' @ rest"
    unfolding search_point_matches by (elim exE conjE)
  then have "sublist key s" unfolding sublist_def by (intro exI)
  with assms show False by simp
qed

lemma search_dim_sublist:
  assumes "\<not> sublist key s"
  shows "search_dim key s = None"
proof (rule ccontr)
  assume "search_dim key s \<noteq> None"
  then obtain pre d rest where "s = pre @ key @ ''='' @ d # rest"
    unfolding search_dim_matches by (elim exE conjE)
  then have "sublist key s" unfolding sublist_def by (intro exI)
  with assms show False by simp
qed

section \<open>The claims\<close>

text \<open>
  C5. The Dataset Selector. Without a request, the selected names are exactly the available
  names in which \<^verbatim>\<open>NDVI\<close> occurs, case-sensitively. With a request, they are exactly the
  available names that the request mentions; in both cases they come in the archive's own
  order (a subsequence of the available names, without repetition when those have none), so
  two requests with the same names in a different order select the same list. An empty
  selection is no error of the conversion: it returns the empty list of created files and
  leaves the files on disk as they were.
\<close>

theorem C5_dataset_selector:
  "(\<forall>ds. ds \<in> set (process_datasets None all_datasets) \<longleftrightarrow>
          ds \<in> set all_datasets \<and> (\<exists>pre suf. ds = pre @ ''NDVI'' @ suf))
   \<and> set (process_datasets (Some requested) all_datasets) = set all_datasets \<inter> set requested
   \<and> subseq (process_datasets datasets all_datasets) all_datasets
   \<and> (distinct all_datasets \<longrightarrow> distinct (process_datasets datasets all_datasets))
   \<and> (set requested = set requested' \<longrightarrow>
        process_datasets (Some requested) all_datasets
          = process_datasets (Some requested') all_datasets)
   \<and> (os_path_exists s hdf_file
        \<and> (\<exists>s1. os_makedirs (case output_dir of None \<Rightarrow> os_path_dirname hdf_file
                               | Some d \<Rightarrow> d) s = Inr s1)
        \<and> sd_open E hdf_file = Some hdf_ds
        \<and> process_datasets datasets (dataset_names hdf_ds) = [] \<longrightarrow>
        fst (hdf_to_geotiff_sinusoidal E hdf_file output_dir datasets s) = Inr []
        \<and> files (snd (hdf_to_geotiff_sinusoidal E hdf_file output_dir datasets s)) = files s)"
proof (intro conjI allI impI)
  fix ds
  show "ds \<in> set (process_datasets None all_datasets) \<longleftrightarrow>
          ds \<in> set all_datasets \<and> (\<exists>pre suf. ds = pre @ ''NDVI'' @ suf)"
    by (simp add: process_datasets_def contains_iff)
next
  show "set (process_datasets (Some requested) all_datasets) = set all_datasets \<inter> set requested"
    by (auto simp: process_datasets_def)
next
  show "subseq (process_datasets datasets all_datasets) all_datasets"
    by (cases datasets) (simp_all add: process_datasets_def)
next
  assume "distinct all_datasets"
  then show "distinct (process_datasets datasets all_datasets)"
    by (cases datasets) (simp_all add: process_datasets_def)
next
  assume "set requested = set requested'"
  then show "process_datasets (Some requested) all_datasets
          = process_datasets (Some requested') all_datasets"
    by (simp add: process_datasets_def)
next
  assume a: "os_path_exists s hdf_file
        \<and> (\<exists>s1. os_makedirs (case output_dir of None \<Rightarrow> os_path_dirname hdf_file
                               | Some d \<Rightarrow> d) s = Inr s1)
        \<and> sd_open E hdf_file = Some hdf_ds
        \<and> process_datasets datasets (dataset_names hdf_ds) = []"
  then obtain s1 where s1: "os_makedirs (case output_dir of None \<Rightarrow> os_path_dirname hdf_file
                               | Some d \<Rightarrow> d) s = Inr s1" by blast
  obtain pi s2 where g: "get_modis_projection_info E hdf_file s1 = (pi, s2)"
    by (cases "get_modis_projection_info E hdf_file s1")
  show "fst (hdf_to_geotiff_sinusoidal E hdf_file output_dir datasets s) = Inr []"
    using a s1 g by (simp add: hdf_to_geotiff_sinusoidal_def sd_start_def)
next
  assume a: "os_path_exists s hdf_file
        \<and> (\<exists>s1. os_makedirs (case output_dir of None \<Rightarrow> os_path_dirname hdf_file
                               | Some d \<Rightarrow> d) s = Inr s1)
        \<and> sd_open E hdf_file = Some hdf_ds
        \<and> process_datasets datasets (dataset_names hdf_ds) = []"
  then obtain s1 where s1: "os_makedirs (case output_dir of None \<Rightarrow> os_path_dirname hdf_file
                               | Some d \<Rightarrow> d) s = Inr s1" by blast
  obtain pi s2 where g: "get_modis_projection_info E hdf_file s1 = (pi, s2)"
    by (cases "get_modis_projection_info E hdf_file s1")
  have "files s2 = files s"
    using files_get_modis_projection_info[of E hdf_file s1] g files_os_makedirs[OF s1] by simp
  then show "files (snd (hdf_to_geotiff_sinusoidal E hdf_file output_dir datasets s)) = files s"
    using a s1 g by (simp add: hdf_to_geotiff_sinusoidal_def sd_start_def sd_read_def
          sd_end_def sd_del_def)
qed

text \<open>
  On the worked tile: the default picks the NDVI layer only (not EVI, not the quality
  layer), a request in another order and with an unknown name gives the two known layers in
  archive order, and a request that matches nothing converts nothing and fails nothing.
\<close>

theorem C5_dataset_selector_witness:
  "process_datasets None modis_names = [''250m_16_days_NDVI'']
   \<and> process_datasets (Some [''NonExistent'', ''250m_16_days_VI_Quality'', ''250m_16_days_EVI''])
        modis_names = [''250m_16_days_EVI'', ''250m_16_days_VI_Quality'']
   \<and> process_datasets (Some [''250m_16_days_EVI'', ''250m_16_days_VI_Quality''])
        modis_names = [''250m_16_days_EVI'', ''250m_16_days_VI_Quality'']
   \<and> process_datasets None [''250m_16_days_ndvi''] = []
   \<and> fst (hdf_to_geotiff_sinusoidal
            (tile_env tile_path (Some (tile_archive (Some tile_metadata) modis_names)))
            tile_path None (Some [''NonExistent'']) tile_disk) = Inr []
   \<and> files (snd (hdf_to_geotiff_sinusoidal
            (tile_env tile_path (Some (tile_archive (Some tile_metadata) modis_names)))
            tile_path None (Some [''NonExistent'']) tile_disk)) = files tile_disk"
proof -
  let ?E = "tile_env tile_path (Some (tile_archive (Some tile_metadata) modis_names))"
  have h1: "os_path_exists tile_disk tile_path" by (rule tile_exists)
  have h2: "\<exists>s1. os_makedirs (case None of None \<Rightarrow> os_path_dirname tile_path
                               | Some d \<Rightarrow> d) tile_disk = Inr s1"
    by (simp add: tile_dirname tile_makedirs)
  have h3: "sd_open ?E tile_path = Some (tile_archive (Some tile_metadata) modis_names)"
    by (simp add: tile_sd_open)
  have h4: "process_datasets (Some [''NonExistent''])
              (dataset_names (tile_archive (Some tile_metadata) modis_names)) = []"
    by (simp add: process_datasets_def tile_archive_def modis_names_def)
  have h5: "set [''NonExistent'', ''250m_16_days_VI_Quality'', ''250m_16_days_EVI'']
              = set [''250m_16_days_EVI'', ''250m_16_days_VI_Quality'', ''NonExistent'']"
    by auto
  have sel: "process_datasets (Some [''250m_16_days_EVI'', ''250m_16_days_VI_Quality''])
        modis_names = [''250m_16_days_EVI'', ''250m_16_days_VI_Quality'']"
    by (simp add: process_datasets_def modis_names_def)
  have ndvi: "process_datasets None modis_names = [''250m_16_days_NDVI'']"
    by (simp add: process_datasets_def modis_names_def)
  have lower_case: "process_datasets None [''250m_16_days_ndvi''] = []"
    by (simp add: process_datasets_def)
  have sel2: "process_datasets (Some [''NonExistent'', ''250m_16_days_VI_Quality'', ''250m_16_days_EVI''])
        modis_names = [''250m_16_days_EVI'', ''250m_16_days_VI_Quality'']"
    by (simp add: process_datasets_def modis_names_def)
  note c5 = C5_dataset_selector
    [of modis_names "[''NonExistent'', ''250m_16_days_VI_Quality'', ''250m_16_days_EVI'']"
        "Some [''NonExistent'']"
        "[''250m_16_days_EVI'', ''250m_16_days_VI_Quality'', ''NonExistent'']"
        tile_disk tile_path None ?E "tile_archive (Some tile_metadata) modis_names"]
  from c5 h1 h2 h3 h4 have
    "fst (hdf_to_geotiff_sinusoidal ?E tile_path None (Some [''NonExistent'']) tile_disk) = Inr []
     \<and> files (snd (hdf_to_geotiff_sinusoidal ?E tile_path None (Some [''NonExistent''])
           tile_disk)) = files tile_disk"
    by blast
  with ndvi sel sel2 lower_case show ?thesis by blast
qed

lemma extract_geotransform_no_match:
  "search_point ''UpperLeftPointMtrs'' t = None \<or> search_point ''LowerRightMtrs'' t = None
   \<or> search_dim ''XDim'' t = None \<or> search_dim ''YDim'' t = None
   \<Longrightarrow> extract_geotransform pf t = Inr None"
  by (auto simp: extract_geotransform_def split: option.splits prod.splits)

lemma match_point_at_empty: "match_point_at key [] = None"
  by (simp add: match_point_at_def)

lemma match_dim_at_empty: "match_dim_at key [] = None"
  by (simp add: match_dim_at_def)

lemma no_lower_right: "search_point ''LowerRightMtrs'' no_lower_right_metadata = None"
  by (simp add: no_lower_right_metadata_def match_point_at_def)

subsection \<open>Floats inside their range\<close>

lemma float_overflow_pos: "0 < float_overflow"
  by (simp add: float_overflow_def)






lemma decimal_floats:
  "decimal_float ''-10007554.7'' = Some (Finite (- 10007554.7))"
  "decimal_float ''5559752.6'' = Some (Finite 5559752.6)"
  "decimal_float ''-8895604.2'' = Some (Finite (- 8895604.2))"
  "decimal_float ''4447802.1'' = Some (Finite 4447802.1)"
  "decimal_float ''5'' = Some (Finite 5)"
  "decimal_float ''1'' = Some (Finite 1)"
  "decimal_float ''0'' = Some (Finite 0)"
  "decimal_float ''nan'' = Some NaN"
  by (simp_all add: decimal_float_def unsigned_decimal_def decimal_digits_def
        digit_value_def is_digit_def float_of_real_def float_overflow_def float_underflow_def)

lemma tile_floats:
  "py_float (tile_env p a) = decimal_float"
  by (simp add: tile_env_def)

lemma tile_4800: "py_int ''4800'' = Inr 4800"
  by (simp add: py_int_def digit_value_def)


lemma zero_xdim_matches:
  "search_point ''UpperLeftPointMtrs'' zero_xdim_metadata = Some (''-10007554.7'', ''5559752.6'')"
  "search_point ''LowerRightMtrs'' zero_xdim_metadata = Some (''-8895604.2'', ''4447802.1'')"
  "search_dim ''XDim'' zero_xdim_metadata = Some ''0''"
  "search_dim ''YDim'' zero_xdim_metadata = Some ''4800''"
  by (simp_all add: zero_xdim_metadata_def match_point_at_def match_dim_at_def is_digit_def)

lemma zero_xdim_raises:
  "extract_geotransform decimal_float zero_xdim_metadata = Inl ZeroDivisionError"
  by (simp add: extract_geotransform_def zero_xdim_matches decimal_floats to_float_def
        py_int_def digit_value_def true_div_def)










text \<open>
  C2. Whenever one of the four patterns finds no match in the metadata text, the
  Geotransform Builder returns no bundle at all. An archive without the metadata block is
  read as the empty text, in which none of the four patterns matches, and so it also gets
  no bundle; and so does a text in which one of the four keys does not occur at all.
\<close>

theorem C2_no_bundle:
  "(sd_open E hdf_file = Some hdf_ds
      \<and> (search_point ''UpperLeftPointMtrs'' (struct_metadata_text hdf_ds) = None
         \<or> search_point ''LowerRightMtrs'' (struct_metadata_text hdf_ds) = None
         \<or> search_dim ''XDim'' (struct_metadata_text hdf_ds) = None
         \<or> search_dim ''YDim'' (struct_metadata_text hdf_ds) = None)
      \<longrightarrow> fst (get_modis_projection_info E hdf_file s) = None)
   \<and> (sd_open E hdf_file = Some hdf_ds \<and> struct_metadata hdf_ds = None
      \<longrightarrow> struct_metadata_text hdf_ds = [] \<and> fst (get_modis_projection_info E hdf_file s) = None)
   \<and> (sd_open E hdf_file = Some hdf_ds
      \<and> (\<not> sublist ''UpperLeftPointMtrs'' (struct_metadata_text hdf_ds)
         \<or> \<not> sublist ''LowerRightMtrs'' (struct_metadata_text hdf_ds)
         \<or> \<not> sublist ''XDim'' (struct_metadata_text hdf_ds)
         \<or> \<not> sublist ''YDim'' (struct_metadata_text hdf_ds))
      \<longrightarrow> fst (get_modis_projection_info E hdf_file s) = None)
   \<and> search_point ''UpperLeftPointMtrs'' [] = None \<and> search_point ''LowerRightMtrs'' [] = None
   \<and> search_dim ''XDim'' [] = None \<and> search_dim ''YDim'' [] = None"
proof -
  have a: "fst (get_modis_projection_info E hdf_file s) = None"
    if "sd_open E hdf_file = Some hdf_ds"
      and "search_point ''UpperLeftPointMtrs'' (struct_metadata_text hdf_ds) = None
         \<or> search_point ''LowerRightMtrs'' (struct_metadata_text hdf_ds) = None
         \<or> search_dim ''XDim'' (struct_metadata_text hdf_ds) = None
         \<or> search_dim ''YDim'' (struct_metadata_text hdf_ds) = None"
    using that(1) extract_geotransform_no_match[OF that(2), of "py_float E"]
    by (simp add: get_modis_projection_info_def Let_def sd_start_def)
  have b: "struct_metadata_text hdf_ds = []" if "struct_metadata hdf_ds = None"
    using that by (simp add: struct_metadata_text_def)
  have c: "fst (get_modis_projection_info E hdf_file s) = None"
    if "sd_open E hdf_file = Some hdf_ds" and "struct_metadata hdf_ds = None"
    using a[OF that(1)] b[OF that(2)] by (simp add: match_point_at_empty)
  have d: "fst (get_modis_projection_info E hdf_file s) = None"
    if "sd_open E hdf_file = Some hdf_ds"
      and "\<not> sublist ''UpperLeftPointMtrs'' (struct_metadata_text hdf_ds)
         \<or> \<not> sublist ''LowerRightMtrs'' (struct_metadata_text hdf_ds)
         \<or> \<not> sublist ''XDim'' (struct_metadata_text hdf_ds)
         \<or> \<not> sublist ''YDim'' (struct_metadata_text hdf_ds)"
  proof (rule a[OF that(1)])
    show "search_point ''UpperLeftPointMtrs'' (struct_metadata_text hdf_ds) = None
         \<or> search_point ''LowerRightMtrs'' (struct_metadata_text hdf_ds) = None
         \<or> search_dim ''XDim'' (struct_metadata_text hdf_ds) = None
         \<or> search_dim ''YDim'' (struct_metadata_text hdf_ds) = None"
      using that(2) by (auto simp: search_point_sublist search_dim_sublist)
  qed
  show ?thesis
    using a b c d by (simp add: match_point_at_empty match_dim_at_empty)
qed

text \<open>
  A block without \<^verbatim>\<open>LowerRightMtrs\<close>, and an archive without any block: no bundle.
\<close>

theorem C2_no_bundle_witness:
  "search_point ''LowerRightMtrs'' no_lower_right_metadata = None
   \<and> \<not> sublist ''LowerRightMtrs'' no_lower_right_metadata
   \<and> fst (get_modis_projection_info
            (tile_env tile_path (Some (tile_archive (Some no_lower_right_metadata) modis_names)))
            tile_path tile_disk) = None
   \<and> fst (get_modis_projection_info
            (tile_env tile_path (Some (tile_archive None modis_names)))
            tile_path tile_disk) = None"
proof -
  let ?a = "tile_archive (Some no_lower_right_metadata) modis_names"
  let ?b = "tile_archive None modis_names"
  have h1: "sd_open (tile_env tile_path (Some ?a)) tile_path = Some ?a"
    by (simp add: tile_sd_open)
  have h2: "search_point ''LowerRightMtrs'' (struct_metadata_text ?a) = None"
    by (simp add: struct_metadata_text_def tile_archive_def no_lower_right)
  have h3: "sd_open (tile_env tile_path (Some ?b)) tile_path = Some ?b"
    by (simp add: tile_sd_open)
  have h4: "struct_metadata ?b = None"
    by (simp add: tile_archive_def)
  from C2_no_bundle[of "tile_env tile_path (Some ?a)" tile_path ?a tile_disk] h1 h2
  have r1: "fst (get_modis_projection_info (tile_env tile_path (Some ?a)) tile_path tile_disk) = None"
    by blast
  from C2_no_bundle[of "tile_env tile_path (Some ?b)" tile_path ?b tile_disk] h3 h4
  have r2: "fst (get_modis_projection_info (tile_env tile_path (Some ?b)) tile_path tile_disk) = None"
    by blast
  have h5: "\<not> sublist ''LowerRightMtrs'' no_lower_right_metadata"
    by (simp add: contains_sublist[symmetric] no_lower_right_metadata_def)
  then have h6: "\<not> sublist ''LowerRightMtrs'' (struct_metadata_text ?a)"
    by (simp add: struct_metadata_text_def tile_archive_def)
  from C2_no_bundle[of "tile_env tile_path (Some ?a)" tile_path ?a tile_disk] h1 h6
  have r3: "fst (get_modis_projection_info (tile_env tile_path (Some ?a)) tile_path tile_disk) = None"
    by blast
  from r1 r2 r3 h5 no_lower_right show ?thesis by blast
qed

lemma find_no_data_find:
  "find_no_data attrs =
     (case find (\<lambda>(key, v). sublist ''no data'' (lower key) \<or> sublist ''nodata'' (lower key)) attrs of
        None \<Rightarrow> None
      | Some (key, v) \<Rightarrow> Some v)"
  by (induction attrs rule: find_no_data.induct) (auto simp: contains_sublist)

lemma no_data_value_find:
  "no_data_value dataset_name attrs =
     (if sublist ''NDVI'' dataset_name \<or> sublist ''EVI'' dataset_name
      then Some (NoData_Const (- 3000))
      else case find (\<lambda>(key, v). sublist ''no data'' (lower key) \<or> sublist ''nodata'' (lower key))
                  attrs of
             None \<Rightarrow> None
           | Some (key, v) \<Rightarrow> Some (NoData_Attr v))"
  by (auto simp: no_data_value_def find_no_data_find contains_sublist split: option.splits)

lemma write_geotiff_Some:
  assumes "write_geotiff E hdf_ds projection_info dataset_name output_path s = (Some p, s')"
    and "select_get hdf_ds dataset_name = Some dataset"
  shows "\<exists>r. files s' p = Some (GeoTIFF r)
             \<and> raster_nodata r = no_data_value dataset_name (attributes dataset)"
  using assms
  by (auto simp: write_geotiff_def Let_def split: if_splits list.splits option.splits)

lemma write_geotiff_success:
  assumes "select_get hdf_ds n = Some d" and "gtiff_driver E" and "shape d = [y, x]"
    and "gdal_create E output_path" and "projection_info = Some pinfo"
    and "geotransform pinfo = Some gt" and "projection_wkt pinfo = Some w" and "w \<noteq> []"
    and "nodata_accepted E (no_data_value n (attributes d))"
  shows "write_geotiff E hdf_ds projection_info n output_path s =
           (Some output_path,
            s\<lparr>files := (files s)(output_path \<mapsto>
                 GeoTIFF \<lparr>raster_x_size = x, raster_y_size = y, raster_geotransform = Some gt,
                          raster_projection = Some w,
                          raster_nodata = no_data_value n (attributes d)\<rparr>)\<rparr>)"
  using assms by (simp add: write_geotiff_def Let_def)

lemma write_geotiff_wrong_rank:
  assumes "select_get hdf_ds n = Some d" and "length (shape d) \<noteq> 2"
  shows "write_geotiff E hdf_ds projection_info n output_path s = (None, s)"
  using assms by (auto simp: write_geotiff_def split: list.splits)

lemma write_geotiff_no_geotransform:
  assumes "select_get hdf_ds n = Some d" and "gtiff_driver E" and "shape d = [y, x]"
    and "gdal_create E output_path" and "projection_info = None"
  shows "write_geotiff E hdf_ds projection_info n output_path s =
           (None,
            s\<lparr>files := (files s)(output_path \<mapsto>
                 GeoTIFF \<lparr>raster_x_size = x, raster_y_size = y, raster_geotransform = None,
                          raster_projection = None, raster_nodata = None\<rparr>)\<rparr>)"
  using assms by (simp add: write_geotiff_def Let_def)

lemma tile_geotransform:
  "extract_geotransform decimal_float tile_metadata
     = Inr (Some ((Finite (- 10007554.7), Finite (1111950.5 / 4800), Finite 0,
                   Finite 5559752.6, Finite 0, Finite (- (1111950.5 / 4800))),
                  Finite (1111950.5 / 4800)))"
  by (simp add: extract_geotransform_def tile_upper_left tile_lower_right tile_xdim tile_ydim
        decimal_floats to_float_def tile_4800 true_div_def float_int_limit_def
        float_of_real_def float_overflow_def float_underflow_def Let_def)


lemma tile_output_filename:
  "output_filename ''MOD13Q1.A2015209.h12v04.061.hdf'' (Some ''20150728'') n
     = Inr (''MOD13Q1_20150728_'' @ safe_dataset_name n @ ''.tif'')"
  by (simp add: output_filename_def)

lemma tile_output_paths:
  "os_path_join ''/data'' (''MOD13Q1_20150728_'' @ safe_dataset_name ''250m_16_days_NDVI'' @ ''.tif'')
     = ndvi_tif"
  "os_path_join ''/data'' (''MOD13Q1_20150728_'' @ safe_dataset_name ''250m_16_days_VI_Quality'' @ ''.tif'')
     = quality_tif"
  "os_path_join ''/data'' (''MOD13Q1_20150728_'' @ safe_dataset_name ''NDVI_stack'' @ ''.tif'')
     = stack_tif"
  by (simp_all add: os_path_join_def safe_dataset_name_def replace_char_def ndvi_tif_def
        quality_tif_def stack_tif_def)

lemma force_overwrite_absent: "\<not> os_path_exists s p \<Longrightarrow> force_overwrite p s = Inr s"
  by (simp add: force_overwrite_def)

lemma tile_disk_absent:
  "\<not> os_path_exists tile_disk ndvi_tif" "\<not> os_path_exists tile_disk quality_tif"
  "\<not> os_path_exists tile_disk stack_tif"
  by (simp_all add: os_path_exists_def is_file_def tile_disk_def tile_path_def ndvi_tif_def
        quality_tif_def stack_tif_def)

lemma tile_select:
  "select_get (tile_archive md names) ''250m_16_days_NDVI'' = Some vi_grid"
  "select_get (tile_archive md names) ''250m_16_days_VI_Quality'' = Some quality_grid"
  "select_get (tile_archive md names) ''NDVI_stack'' = Some stack_grid"
  by (simp_all add: tile_archive_def tile_datasets_def)

lemma tile_writer:
  "gtiff_driver (tile_env p a)" "gdal_create (tile_env p a) q"
  "nodata_accepted (tile_env p a) nd"
  by (simp_all add: tile_env_def nodata_accepted_def split: option.splits nodata.splits)

lemma tile_shapes:
  "shape vi_grid = [4800, 4800]" "shape quality_grid = [4800, 4800]"
  "length (shape stack_grid) \<noteq> 2"
  by (simp_all add: vi_grid_def quality_grid_def stack_grid_def)

lemma tile_projection_fields:
  "geotransform tile_projection
     = Some (Finite (- 10007554.7), Finite (1111950.5 / 4800), Finite 0, Finite 5559752.6,
             Finite 0, Finite (- (1111950.5 / 4800)))"
  "projection_wkt tile_projection = Some ''PROJCS[unnamed,PROJECTION[Sinusoidal]]''"
  by (simp_all add: tile_projection_def)

lemma tile_write:
  assumes "select_get (tile_archive md names) n = Some d" and "shape d = [4800, 4800]"
  shows "write_geotiff (tile_env p a) (tile_archive md names) (Some tile_projection) n q s
         = (Some q,
            s\<lparr>files := (files s)(q \<mapsto>
                 GeoTIFF \<lparr>raster_x_size = 4800, raster_y_size = 4800,
                          raster_geotransform = geotransform tile_projection,
                          raster_projection = projection_wkt tile_projection,
                          raster_nodata = no_data_value n (attributes d)\<rparr>)\<rparr>)"
  by (simp only: tile_projection_fields,
      rule write_geotiff_success[OF assms(1) tile_writer(1) assms(2) tile_writer(2) refl
            tile_projection_fields(1) tile_projection_fields(2) _ tile_writer(3)])
     simp

lemma convert_dataset_run:
  assumes "output_filename hdf_basename date_str n = Inr name"
    and "force_overwrite (os_path_join output_dir name) s = Inr s1"
    and "write_geotiff E hdf_ds projection_info n (os_path_join output_dir name) (sd_read h s1)
           = (r, s2)"
  shows "convert_dataset E hdf_ds h projection_info hdf_basename date_str output_dir n s
           = (Inr r, s2)"
  using assms by (simp add: convert_dataset_def)

lemma hdf_to_geotiff_sinusoidal_run:
  assumes "os_path_exists s hdf_file"
    and "os_makedirs (case output_dir of None \<Rightarrow> os_path_dirname hdf_file | Some d \<Rightarrow> d) s
           = Inr s1"
    and "get_modis_projection_info E hdf_file s1 = (pinfo, s2)"
    and "sd_open E hdf_file = Some hdf_ds"
    and "convert_datasets E hdf_ds (length (sd_log s2)) pinfo (os_path_basename hdf_file)
           (parse_modis_date E (os_path_basename hdf_file))
           (case output_dir of None \<Rightarrow> os_path_dirname hdf_file | Some d \<Rightarrow> d)
           (process_datasets datasets (dataset_names hdf_ds)) []
           (sd_read (length (sd_log s2)) (snd (sd_start s2))) = (r, s4)"
  shows "hdf_to_geotiff_sinusoidal E hdf_file output_dir datasets s =
           (case r of
              Inl e \<Rightarrow> (Inr [], sd_del (length (sd_log s2)) s4)
            | Inr created \<Rightarrow>
                (Inr created, sd_del (length (sd_log s2)) (sd_end (length (sd_log s2)) s4)))"
  using assms
  by (simp add: hdf_to_geotiff_sinusoidal_def sd_start_def split: sum.splits)

text \<open>
  C6. For every dataset that the Materializer records as converted, the output raster is
  on disk and its no-data value is: the constant -3000 when \<^verbatim>\<open>NDVI\<close> or \<^verbatim>\<open>EVI\<close>
  occurs in the dataset name, whatever the attributes say; otherwise the value of the first
  attribute whose lowered key contains \<^verbatim>\<open>no data\<close> or \<^verbatim>\<open>nodata\<close>; otherwise none.
\<close>

theorem C6_no_data_value:
  assumes "write_geotiff E hdf_ds projection_info dataset_name output_path s = (Some p, s')"
    and "select_get hdf_ds dataset_name = Some dataset"
  shows "\<exists>r. files s' p = Some (GeoTIFF r) \<and> raster_nodata r =
     (if sublist ''NDVI'' dataset_name \<or> sublist ''EVI'' dataset_name
      then Some (NoData_Const (- 3000))
      else case find (\<lambda>(key, v). sublist ''no data'' (lower key) \<or> sublist ''nodata'' (lower key))
                  (attributes dataset) of
             None \<Rightarrow> None
           | Some (key, v) \<Rightarrow> Some (NoData_Attr v))"
  using write_geotiff_Some[OF assms] by (simp only: no_data_value_find)

text \<open>
  The NDVI layer carries an attribute \<^verbatim>\<open>NoData_Value\<close> of -9999 and still gets -3000;
  the quality layer gets 65535 from \<^verbatim>\<open>Legend NoData Value\<close>, the first of its two
  matching attributes.
\<close>

theorem C6_no_data_value_witness:
  "(\<exists>r. files (snd (write_geotiff (tile_env tile_path None) (tile_archive None modis_names)
                      (Some tile_projection) ''250m_16_days_NDVI'' ndvi_tif tile_disk)) ndvi_tif
           = Some (GeoTIFF r)
        \<and> raster_nodata r = Some (NoData_Const (- 3000)))
   \<and> (\<exists>r. files (snd (write_geotiff (tile_env tile_path None) (tile_archive None modis_names)
                      (Some tile_projection) ''250m_16_days_VI_Quality'' quality_tif tile_disk))
             quality_tif = Some (GeoTIFF r)
        \<and> raster_nodata r = Some (NoData_Attr 65535))"
proof -
  let ?E = "tile_env tile_path None"
  let ?a = "tile_archive None modis_names"
  obtain s1 where w1: "write_geotiff ?E ?a (Some tile_projection) ''250m_16_days_NDVI''
                         ndvi_tif tile_disk = (Some ndvi_tif, s1)"
    using tile_write[OF tile_select(1) tile_shapes(1)] by blast
  obtain s2 where w2: "write_geotiff ?E ?a (Some tile_projection) ''250m_16_days_VI_Quality''
                         quality_tif tile_disk = (Some quality_tif, s2)"
    using tile_write[OF tile_select(2) tile_shapes(2)] by blast
  have n1: "sublist ''NDVI'' ''250m_16_days_NDVI''"
    by (simp add: contains_sublist[symmetric])
  have n2: "\<not> sublist ''NDVI'' ''250m_16_days_VI_Quality''"
    "\<not> sublist ''EVI'' ''250m_16_days_VI_Quality''"
    by (simp_all add: contains_sublist[symmetric])
  have f: "find (\<lambda>(key, v). sublist ''no data'' (lower key) \<or> sublist ''nodata'' (lower key))
             (attributes quality_grid) = Some (''Legend NoData Value'', 65535)"
    by (simp add: quality_grid_def contains_sublist[symmetric] lower_def lower_char_def)
  from C6_no_data_value[OF w1 tile_select(1)] n1
  have r1: "\<exists>r. files s1 ndvi_tif = Some (GeoTIFF r)
               \<and> raster_nodata r = Some (NoData_Const (- 3000))"
    by simp
  from C6_no_data_value[OF w2 tile_select(2)] n2 f
  have r2: "\<exists>r. files s2 quality_tif = Some (GeoTIFF r)
               \<and> raster_nodata r = Some (NoData_Attr 65535)"
    by simp
  from r1 r2 show ?thesis by (simp add: w1 w2)
qed


lemma tile_skip_ndvi:
  assumes "\<not> os_path_exists s ndvi_tif"
  shows "convert_dataset (tile_env p a) (tile_archive md names) h None
           ''MOD13Q1.A2015209.h12v04.061.hdf'' (Some ''20150728'') ''/data''
           ''250m_16_days_NDVI'' s
         = (Inr None,
            (sd_read h s)\<lparr>files := (files s)(ndvi_tif \<mapsto>
                 GeoTIFF \<lparr>raster_x_size = 4800, raster_y_size = 4800,
                          raster_geotransform = None, raster_projection = None,
                          raster_nodata = None\<rparr>)\<rparr>)"
proof -
  have fo: "force_overwrite (os_path_join ''/data''
              (''MOD13Q1_20150728_'' @ safe_dataset_name ''250m_16_days_NDVI'' @ ''.tif'')) s
            = Inr s"
    by (simp only: tile_output_paths force_overwrite_absent[OF assms])
  have w: "write_geotiff (tile_env p a) (tile_archive md names) None ''250m_16_days_NDVI''
             (os_path_join ''/data''
               (''MOD13Q1_20150728_'' @ safe_dataset_name ''250m_16_days_NDVI'' @ ''.tif''))
             (sd_read h s)
           = (None,
              (sd_read h s)\<lparr>files := (files s)(ndvi_tif \<mapsto>
                 GeoTIFF \<lparr>raster_x_size = 4800, raster_y_size = 4800,
                          raster_geotransform = None, raster_projection = None,
                          raster_nodata = None\<rparr>)\<rparr>)"
    using write_geotiff_no_geotransform[OF tile_select(1) tile_writer(1) tile_shapes(1)
        tile_writer(2) refl, where s = "sd_read h s" and output_path = ndvi_tif]
    by (simp only: tile_output_paths handle_files)
  show ?thesis
    by (rule convert_dataset_run[OF tile_output_filename fo w])
qed

lemma tile_skip_stack:
  assumes "force_overwrite stack_tif s = Inr s1"
  shows "convert_dataset (tile_env p a) (tile_archive md names) h pinfo
           ''MOD13Q1.A2015209.h12v04.061.hdf'' (Some ''20150728'') ''/data'' ''NDVI_stack'' s
         = (Inr None, sd_read h s1)"
proof -
  have fo: "force_overwrite (os_path_join ''/data''
              (''MOD13Q1_20150728_'' @ safe_dataset_name ''NDVI_stack'' @ ''.tif'')) s = Inr s1"
    by (simp only: tile_output_paths assms)
  show ?thesis
    by (rule convert_dataset_run[OF tile_output_filename fo
          write_geotiff_wrong_rank[OF tile_select(3) tile_shapes(3)]])
qed

lemma tile_names [simp]:
  "dataset_names (tile_archive md names) = names"
  by (simp add: tile_archive_def)

lemma tile_default_selection: "process_datasets None modis_names = [''250m_16_days_NDVI'']"
  by (simp add: process_datasets_def modis_names_def)

lemma stack_first_selection:
  "process_datasets None stack_first = stack_first"
  "process_datasets (Some stack_first) stack_first = stack_first"
  by (simp_all add: process_datasets_def stack_first_def)



lemma projection_info_state:
  obtains pinfo s2 where "get_modis_projection_info E f s = (pinfo, s2)"
    and "files s2 = files s" and "dirs s2 = dirs s"
proof -
  obtain pinfo s2 where g: "get_modis_projection_info E f s = (pinfo, s2)"
    by (cases "get_modis_projection_info E f s")
  have "files s2 = files s" "dirs s2 = dirs s"
    using files_get_modis_projection_info[of E f s] dirs_get_modis_projection_info[of E f s] g
    by simp_all
  with g show ?thesis by (rule that)
qed


lemma absent_cong:
  assumes "\<not> os_path_exists s p" and "files s' = files s" and "dirs s' = dirs s"
  shows "\<not> os_path_exists s' p"
  using assms by (auto simp: os_path_exists_def is_file_def split: if_splits)

lemma tile_makedirs_default:
  "os_makedirs (case None of None \<Rightarrow> os_path_dirname tile_path | Some d \<Rightarrow> d) tile_disk
     = Inr tile_disk"
  by (simp add: tile_dirname tile_makedirs)



lemma blocked_makedirs:
  "os_makedirs (case None of None \<Rightarrow> os_path_dirname tile_path | Some d \<Rightarrow> d) blocked_disk
     = Inr blocked_disk"
  by (simp add: tile_dirname os_makedirs_def blocked_disk_def)

lemma blocked_facts:
  "os_path_exists blocked_disk tile_path"
  "files blocked_disk = [tile_path \<mapsto> Other_File]"
  "dirs blocked_disk = {''/data'', stack_tif}"
  "\<not> os_path_exists blocked_disk ndvi_tif"
  by (simp_all add: os_path_exists_def is_file_def blocked_disk_def
        tile_path_def ndvi_tif_def stack_tif_def)

lemma blocked_overwrite:
  assumes "files u = files blocked_disk" and "dirs u = dirs blocked_disk"
  shows "force_overwrite stack_tif u = Inl IsADirectoryError"
  using assms
  by (simp add: force_overwrite_def os_remove_def os_path_exists_def is_file_def blocked_facts
        stack_tif_def tile_path_def)

lemma blocked_turn:
  assumes "files u = files blocked_disk" and "dirs u = dirs blocked_disk"
  shows "convert_dataset (tile_env p a) (tile_archive md names) h pinfo
           ''MOD13Q1.A2015209.h12v04.061.hdf'' (Some ''20150728'') ''/data'' ''NDVI_stack'' u
         = (Inl IsADirectoryError, u)"
proof -
  have "force_overwrite (os_path_join ''/data''
              (''MOD13Q1_20150728_'' @ safe_dataset_name ''NDVI_stack'' @ ''.tif'')) u
          = Inl IsADirectoryError"
    by (simp only: tile_output_paths blocked_overwrite[OF assms])
  then show ?thesis
    by (simp add: convert_dataset_def tile_output_filename)
qed

lemma blocked_loop:
  assumes "files u = files blocked_disk" and "dirs u = dirs blocked_disk"
  shows "convert_datasets (tile_env p a) (tile_archive md names) h pinfo
           ''MOD13Q1.A2015209.h12v04.061.hdf'' (Some ''20150728'') ''/data'' stack_first
           [] u
         = (Inl IsADirectoryError, u)"
  unfolding stack_first_def by (simp add: blocked_turn[OF assms])


lemma convert_datasets_single:
  assumes "convert_dataset E hdf_ds h pinfo b dt od n s = (Inr r, s1)"
  shows "convert_datasets E hdf_ds h pinfo b dt od [n] created s =
           (Inr (case r of None \<Rightarrow> created | Some q \<Rightarrow> created @ [q]), s1)"
  using assms by (simp split: option.splits)

lemma convert_datasets_raises:
  assumes "convert_dataset E hdf_ds h pinfo b dt od n s = (Inl e, s1)"
  shows "convert_datasets E hdf_ds h pinfo b dt od (n # ns) created s = (Inl e, s1)"
  using assms by simp

lemma no_metadata_projection_info:
  "fst (get_modis_projection_info (tile_env p (Some (tile_archive None names))) p s) = None"
  by (simp add: get_modis_projection_info_def tile_env_def tile_archive_def
        struct_metadata_text_def extract_geotransform_def match_point_at_def sd_start_def)

lemma overwrite_file:
  assumes "files s p = Some f"
  shows "force_overwrite p s = Inr (s\<lparr>files := (files s)(p := None)\<rparr>)"
  using assms by (simp add: force_overwrite_def os_remove_def os_path_exists_def is_file_def)

lemma tile_blank_ndvi:
  assumes "force_overwrite ndvi_tif s = Inr s1"
  shows "convert_dataset (tile_env p a) (tile_archive md names) h None
           ''MOD13Q1.A2015209.h12v04.061.hdf'' (Some ''20150728'') ''/data''
           ''250m_16_days_NDVI'' s
         = (Inr None,
            (sd_read h s1)\<lparr>files := (files s1)(ndvi_tif \<mapsto>
                 GeoTIFF \<lparr>raster_x_size = 4800, raster_y_size = 4800,
                          raster_geotransform = None, raster_projection = None,
                          raster_nodata = None\<rparr>)\<rparr>)"
proof -
  have fo: "force_overwrite (os_path_join ''/data''
              (''MOD13Q1_20150728_'' @ safe_dataset_name ''250m_16_days_NDVI'' @ ''.tif'')) s
            = Inr s1"
    by (simp only: tile_output_paths assms)
  have w: "write_geotiff (tile_env p a) (tile_archive md names) None ''250m_16_days_NDVI''
             (os_path_join ''/data''
               (''MOD13Q1_20150728_'' @ safe_dataset_name ''250m_16_days_NDVI'' @ ''.tif''))
             (sd_read h s1)
           = (None,
              (sd_read h s1)\<lparr>files := (files s1)(ndvi_tif \<mapsto>
                 GeoTIFF \<lparr>raster_x_size = 4800, raster_y_size = 4800,
                          raster_geotransform = None, raster_projection = None,
                          raster_nodata = None\<rparr>)\<rparr>)"
    using write_geotiff_no_geotransform[OF tile_select(1) tile_writer(1) tile_shapes(1)
        tile_writer(2) refl, where s = "sd_read h s1" and output_path = ndvi_tif]
    by (simp only: tile_output_paths handle_files)
  show ?thesis
    by (rule convert_dataset_run[OF tile_output_filename fo w])
qed

lemma old_output_facts:
  "os_path_exists old_output_disk tile_path"
  "os_makedirs (case None of None \<Rightarrow> os_path_dirname tile_path | Some d \<Rightarrow> d) old_output_disk
     = Inr old_output_disk"
  "files old_output_disk stack_tif = Some Other_File"
  by (simp_all add: os_path_exists_def is_file_def tile_dirname os_makedirs_def
        old_output_disk_def)

lemma earlier_facts:
  "os_path_exists earlier_ndvi_disk tile_path"
  "os_makedirs (case None of None \<Rightarrow> os_path_dirname tile_path | Some d \<Rightarrow> d)
     earlier_ndvi_disk = Inr earlier_ndvi_disk"
  "files earlier_ndvi_disk ndvi_tif = Some (GeoTIFF earlier_raster)"
  by (simp_all add: os_path_exists_def is_file_def tile_dirname os_makedirs_def
        earlier_ndvi_disk_def)

lemma unreadable_projection_info:
  "get_modis_projection_info (tile_env p None) p s = (None, s)"
  by (simp add: get_modis_projection_info_def tile_env_def)

lemma unreadable_report:
  "info_data_fields (fst (analyze_hdf_file (tile_env p None) p s)) = []"
  by (simp add: analyze_hdf_file_def tile_env_def)

lemma unreadable_analyze:
  "os_path_exists s p \<Longrightarrow>
   status (fst (analyze (tile_env p None) p s)) = Success
   \<and> message (fst (analyze (tile_env p None) p s)) = Found_datasets 0"
  using unreadable_report[of p s]
  by (cases "analyze_hdf_file (tile_env p None) p s") (simp add: analyze_def)

lemma unreadable_conversion:
  assumes "os_path_exists s p"
    and "os_makedirs (case od of None \<Rightarrow> os_path_dirname p | Some d \<Rightarrow> d) s = Inr s1"
  shows "hdf_to_geotiff_sinusoidal (tile_env p None) p od ds s = (Inr [], s1)"
  using assms
  by (simp add: hdf_to_geotiff_sinusoidal_def unreadable_projection_info tile_sd_open)

lemma bare_facts:
  "os_path_exists bare_disk bare_path"
  "os_path_dirname bare_path = []"
  "os_makedirs [] s = Inl FileNotFoundError"
  by (simp_all add: os_path_exists_def is_file_def bare_disk_def bare_path_def
        os_path_dirname_def os_makedirs_def)

text \<open>
  C3 asks that an archive without a georeferencing bundle is converted to nothing at all.
  On the tile without its metadata block the bundle is missing, the conversion returns the
  empty list, and yet the raster of the selected NDVI layer, absent before, is on disk
  afterwards, without geotransform and without projection: the writer creates the file
  before the code looks at the bundle. On a disk that holds the georeferenced raster of an
  earlier conversion at that path, the same run replaces it by the raster without
  georeferencing.
\<close>

theorem C3_raster_without_georeferencing:
  "fst (get_modis_projection_info (tile_env tile_path (Some (tile_archive None modis_names)))
          tile_path tile_disk) = None
   \<and> files tile_disk ndvi_tif = None
   \<and> fst (hdf_to_geotiff_sinusoidal (tile_env tile_path (Some (tile_archive None modis_names)))
            tile_path None None tile_disk) = Inr []
   \<and> files (snd (hdf_to_geotiff_sinusoidal
                   (tile_env tile_path (Some (tile_archive None modis_names)))
                   tile_path None None tile_disk)) ndvi_tif
       = Some (GeoTIFF \<lparr>raster_x_size = 4800, raster_y_size = 4800,
                        raster_geotransform = None, raster_projection = None,
                        raster_nodata = None\<rparr>)
   \<and> files earlier_ndvi_disk ndvi_tif = Some (GeoTIFF earlier_raster)
   \<and> raster_geotransform earlier_raster = geotransform tile_projection
   \<and> fst (hdf_to_geotiff_sinusoidal (tile_env tile_path (Some (tile_archive None modis_names)))
            tile_path None None earlier_ndvi_disk) = Inr []
   \<and> files (snd (hdf_to_geotiff_sinusoidal
                   (tile_env tile_path (Some (tile_archive None modis_names)))
                   tile_path None None earlier_ndvi_disk)) ndvi_tif
       = Some (GeoTIFF \<lparr>raster_x_size = 4800, raster_y_size = 4800,
                        raster_geotransform = None, raster_projection = None,
                        raster_nodata = None\<rparr>)"
proof -
  let ?a = "tile_archive None modis_names"
  let ?E = "tile_env tile_path (Some ?a)"
  let ?b = "''MOD13Q1.A2015209.h12v04.061.hdf''"
  let ?r = "GeoTIFF \<lparr>raster_x_size = 4800, raster_y_size = 4800,
                        raster_geotransform = None, raster_projection = None,
                        raster_nodata = (None :: int nodata option)\<rparr>"
  have none: "fst (get_modis_projection_info ?E tile_path s) = None" for s
    by (rule no_metadata_projection_info)
  have absent: "files tile_disk ndvi_tif = None"
    by (simp add: tile_disk_def tile_path_def ndvi_tif_def)
  have run: "fst (hdf_to_geotiff_sinusoidal ?E tile_path None None d) = Inr []
             \<and> files (snd (hdf_to_geotiff_sinusoidal ?E tile_path None None d)) ndvi_tif
                 = Some ?r"
    if ex: "os_path_exists d tile_path"
      and mk: "os_makedirs (case None of None \<Rightarrow> os_path_dirname tile_path | Some p \<Rightarrow> p) d
                 = Inr d"
      and fo: "\<And>u. files u = files d \<Longrightarrow> dirs u = dirs d \<Longrightarrow>
                 \<exists>u1. force_overwrite ndvi_tif u = Inr u1" for d :: "int state"
  proof -
    obtain pinfo s2 where g: "get_modis_projection_info ?E tile_path d = (pinfo, s2)"
      and fs: "files s2 = files d" and ds: "dirs s2 = dirs d"
      by (rule projection_info_state)
    have pinfo: "pinfo = None" using none[of d] g by simp
    let ?h = "length (sd_log s2)"
    let ?u = "sd_read ?h (snd (sd_start s2))"
    have "files ?u = files d" "dirs ?u = dirs d" using fs ds by simp_all
    from fo[OF this] obtain u1 where u1: "force_overwrite ndvi_tif ?u = Inr u1" ..
    let ?u2 = "(sd_read ?h u1)\<lparr>files := (files u1)(ndvi_tif \<mapsto> ?r)\<rparr>"
    have loop: "convert_datasets ?E ?a ?h pinfo (os_path_basename tile_path)
           (parse_modis_date ?E (os_path_basename tile_path))
           (case None of None \<Rightarrow> os_path_dirname tile_path | Some p \<Rightarrow> p)
           (process_datasets None (dataset_names ?a)) [] ?u = (Inr [], ?u2)"
      using convert_datasets_single[OF tile_blank_ndvi[OF u1], of tile_path "Some ?a" None
          modis_names ?h "[]"]
      by (simp add: tile_basename tile_date tile_dirname tile_default_selection pinfo)
    have "hdf_to_geotiff_sinusoidal ?E tile_path None None d
            = (Inr [], sd_del ?h (sd_end ?h ?u2))"
      using hdf_to_geotiff_sinusoidal_run[OF ex mk g tile_sd_open loop] by simp
    then show ?thesis by (simp add: sd_del_def sd_end_def)
  qed
  have first: "fst (hdf_to_geotiff_sinusoidal ?E tile_path None None tile_disk) = Inr []
             \<and> files (snd (hdf_to_geotiff_sinusoidal ?E tile_path None None tile_disk)) ndvi_tif
                 = Some ?r"
  proof (rule run[OF tile_exists tile_makedirs_default])
    fix u :: "int state" assume "files u = files tile_disk" "dirs u = dirs tile_disk"
    from absent_cong[OF tile_disk_absent(1) this]
    show "\<exists>u1. force_overwrite ndvi_tif u = Inr u1"
      by (simp add: force_overwrite_absent)
  qed
  have second: "fst (hdf_to_geotiff_sinusoidal ?E tile_path None None earlier_ndvi_disk) = Inr []
             \<and> files (snd (hdf_to_geotiff_sinusoidal ?E tile_path None None earlier_ndvi_disk))
                 ndvi_tif = Some ?r"
  proof (rule run[OF earlier_facts(1) earlier_facts(2)])
    fix u :: "int state"
    assume "files u = files earlier_ndvi_disk" "dirs u = dirs earlier_ndvi_disk"
    then have "files u ndvi_tif = Some (GeoTIFF earlier_raster)"
      by (simp add: earlier_facts)
    from overwrite_file[OF this]
    show "\<exists>u1. force_overwrite ndvi_tif u = Inr u1" by simp
  qed
  have before: "files earlier_ndvi_disk ndvi_tif = Some (GeoTIFF earlier_raster)"
    "raster_geotransform earlier_raster = geotransform tile_projection"
    by (simp_all add: earlier_ndvi_disk_def earlier_raster_def)
  from none[of tile_disk] absent first before second show ?thesis by blast
qed

text \<open>
  C4 asks that a dataset of the wrong rank leaves an existing output file alone. On a disk
  that holds an earlier output at the path of the three-dimensional layer, the conversion
  creates nothing and the earlier file is gone: the removal runs before the dataset is
  read and its shape tested.
\<close>

theorem C4_existing_output_removed:
  "select_get (tile_archive (Some tile_metadata) [''NDVI_stack'']) ''NDVI_stack''
     = Some stack_grid
   \<and> shape stack_grid = [2, 4800, 4800]
   \<and> files old_output_disk stack_tif = Some Other_File
   \<and> fst (hdf_to_geotiff_sinusoidal
            (tile_env tile_path (Some (tile_archive (Some tile_metadata) [''NDVI_stack''])))
            tile_path None None old_output_disk) = Inr []
   \<and> files (snd (hdf_to_geotiff_sinusoidal
            (tile_env tile_path (Some (tile_archive (Some tile_metadata) [''NDVI_stack''])))
            tile_path None None old_output_disk)) stack_tif = None"
proof -
  let ?a = "tile_archive (Some tile_metadata) [''NDVI_stack'']"
  let ?E = "tile_env tile_path (Some ?a)"
  let ?b = "''MOD13Q1.A2015209.h12v04.061.hdf''"
  obtain pinfo s2 where g: "get_modis_projection_info ?E tile_path old_output_disk = (pinfo, s2)"
    and fs: "files s2 = files old_output_disk" and ds: "dirs s2 = dirs old_output_disk"
    by (rule projection_info_state)
  let ?h = "length (sd_log s2)"
  let ?u = "sd_read ?h (snd (sd_start s2))"
  let ?u1 = "?u\<lparr>files := (files ?u)(stack_tif := None)\<rparr>"
  have "files ?u stack_tif = Some Other_File"
    using fs by (simp add: old_output_facts)
  from overwrite_file[OF this]
  have fo: "force_overwrite stack_tif ?u = Inr ?u1" .
  have sel: "process_datasets None [''NDVI_stack''] = [''NDVI_stack'']"
    by (simp add: process_datasets_def)
  have loop: "convert_datasets ?E ?a ?h pinfo (os_path_basename tile_path)
           (parse_modis_date ?E (os_path_basename tile_path))
           (case None of None \<Rightarrow> os_path_dirname tile_path | Some d \<Rightarrow> d)
           (process_datasets None (dataset_names ?a)) [] ?u = (Inr [], sd_read ?h ?u1)"
    using convert_datasets_single[OF tile_skip_stack[OF fo], of tile_path "Some ?a"
        "Some tile_metadata" "[''NDVI_stack'']" ?h pinfo "[]"]
    by (simp add: tile_basename tile_date tile_dirname sel)
  have run: "hdf_to_geotiff_sinusoidal ?E tile_path None None old_output_disk
               = (Inr [], sd_del ?h (sd_end ?h (sd_read ?h ?u1)))"
    using hdf_to_geotiff_sinusoidal_run[OF old_output_facts(1) old_output_facts(2) g
        tile_sd_open loop]
    by simp
  show ?thesis
    by (simp add: run old_output_facts tile_select(3) stack_grid_def)
qed

text \<open>
  C8 asks that a file that cannot be opened is reported with status error by both
  commands. For a path that exists and that the reader refuses, the conversion command
  answers error, the analysis command answers success with zero datasets found: the
  analysis function swallows the exception and returns its empty report.
\<close>

theorem C8_analyze_reports_success:
  "sd_open (tile_env tile_path None) tile_path = None
   \<and> status (fst (analyze (tile_env tile_path None) tile_path tile_disk)) = Success
   \<and> message (fst (analyze (tile_env tile_path None) tile_path tile_disk)) = Found_datasets 0
   \<and> status (fst (convert (tile_env tile_path None) tile_path ''/data'' None tile_disk)) = Error"
proof -
  have mk: "os_makedirs (case Some ''/data'' of None \<Rightarrow> os_path_dirname tile_path
                         | Some d \<Rightarrow> d) tile_disk = Inr tile_disk"
    by (simp add: tile_makedirs)
  have "convert (tile_env tile_path None) tile_path ''/data'' None tile_disk
          = (error_response No_files_converted, tile_disk)"
    by (simp add: convert_def tile_exists tile_makedirs
          unreadable_conversion[OF tile_exists mk])
  then show ?thesis
    using unreadable_analyze[OF tile_exists]
    by (simp add: tile_sd_open error_response_def)
qed

text \<open>
  C10 asks that a conversion without output directory writes next to the input archive.
  For an archive given by its bare file name the directory part is the empty path, which
  \<^verbatim>\<open>os.makedirs\<close> refuses: the conversion primitive raises
  \<^verbatim>\<open>FileNotFoundError\<close> and the request wrapper answers that the conversion failed; no
  raster is written in either case.
\<close>

theorem C10_bare_file_name:
  "os_path_exists bare_disk bare_path
   \<and> os_path_dirname bare_path = []
   \<and> hdf_to_geotiff_sinusoidal
        (tile_env bare_path (Some (tile_archive (Some tile_metadata) modis_names)))
        bare_path None None bare_disk = (Inl FileNotFoundError, bare_disk)
   \<and> handle_hdf_to_geotiff_conversion
        (tile_env bare_path (Some (tile_archive (Some tile_metadata) modis_names)))
        bare_request bare_disk
       = (error_response (Conversion_failed FileNotFoundError), bare_disk)"
  by (simp add: bare_facts hdf_to_geotiff_sinusoidal_def handle_hdf_to_geotiff_conversion_def
        convert_def bare_request_def)
     (simp add: bare_path_def)

subsection \<open>The log of the archive handles\<close>

lemma sd_log_handles [simp]:
  "sd_log (snd (sd_start s)) = sd_log s @ [SD_open (length (sd_log s))]"
  "sd_log (sd_read h s) = sd_log s @ [SD_read h]"
  "sd_log (sd_end h s) = sd_log s @ [SD_end h]"
  "sd_log (sd_del h s) = sd_log s @ [SD_del h]"
  by (simp_all add: sd_start_def sd_read_def sd_end_def sd_del_def)

lemma sd_log_os_makedirs: "os_makedirs d s = Inr s1 \<Longrightarrow> sd_log s1 = sd_log s"
  by (auto simp: os_makedirs_def split: if_splits)

lemma sd_log_force_overwrite: "force_overwrite p s = Inr s1 \<Longrightarrow> sd_log s1 = sd_log s"
  by (auto simp: force_overwrite_def os_remove_def split: if_splits)

lemma sd_log_write_geotiff:
  "sd_log (snd (write_geotiff E a pinfo n p s)) = sd_log s"
  by (simp add: write_geotiff_def Let_def split: option.splits list.splits)

lemma sd_log_convert_dataset:
  "\<exists>k. sd_log (snd (convert_dataset E a h pinfo b dt od n s)) = sd_log s @ replicate k (SD_read h)"
proof (cases "output_filename b dt n")
  case (Inl e)
  then have "sd_log (snd (convert_dataset E a h pinfo b dt od n s))
               = sd_log s @ replicate 0 (SD_read h)"
    by (simp add: convert_dataset_def)
  then show ?thesis ..
next
  case (Inr name)
  show ?thesis
  proof (cases "force_overwrite (os_path_join od name) s")
    case (Inl e)
    with Inr have "sd_log (snd (convert_dataset E a h pinfo b dt od n s))
               = sd_log s @ replicate 0 (SD_read h)"
      by (simp add: convert_dataset_def)
    then show ?thesis ..
  next
    case fo: (Inr s1)
    have "sd_log (snd (write_geotiff E a pinfo n (os_path_join od name) (sd_read h s1)))
            = sd_log s @ [SD_read h]"
      by (simp add: sd_log_write_geotiff sd_log_force_overwrite[OF fo])
    with Inr fo have "sd_log (snd (convert_dataset E a h pinfo b dt od n s))
               = sd_log s @ replicate 1 (SD_read h)"
      by (auto simp: convert_dataset_def split: prod.splits)
    then show ?thesis ..
  qed
qed

lemma sd_log_convert_datasets:
  "\<exists>k. sd_log (snd (convert_datasets E a h pinfo b dt od ns created s))
         = sd_log s @ replicate k (SD_read h)"
proof (induction ns arbitrary: created s)
  case Nil
  have "sd_log (snd (convert_datasets E a h pinfo b dt od [] created s))
          = sd_log s @ replicate 0 (SD_read h)"
    by simp
  then show ?case ..
next
  case (Cons n ns)
  obtain r s1 where cd: "convert_dataset E a h pinfo b dt od n s = (r, s1)"
    by (cases "convert_dataset E a h pinfo b dt od n s")
  from sd_log_convert_dataset[of E a h pinfo b dt od n s] cd
  obtain k where k: "sd_log s1 = sd_log s @ replicate k (SD_read h)"
    by auto
  show ?case
  proof (cases r)
    case (Inl e)
    with cd k have "sd_log (snd (convert_datasets E a h pinfo b dt od (n # ns) created s))
          = sd_log s @ replicate k (SD_read h)"
      by simp
    then show ?thesis ..
  next
    case (Inr q)
    define created' where "created' = (case q of None \<Rightarrow> created | Some p \<Rightarrow> created @ [p])"
    have step: "convert_datasets E a h pinfo b dt od (n # ns) created s
                  = convert_datasets E a h pinfo b dt od ns created' s1"
      using cd Inr by (simp add: created'_def split: option.splits)
    from Cons.IH[of created' s1]
    obtain j where "sd_log (snd (convert_datasets E a h pinfo b dt od ns created' s1))
                      = sd_log s1 @ replicate j (SD_read h)" ..
    with step k have "sd_log (snd (convert_datasets E a h pinfo b dt od (n # ns) created s))
          = sd_log s @ replicate (k + j) (SD_read h)"
      by (simp add: replicate_add)
    then show ?thesis ..
  qed
qed

lemma sd_log_data_fields:
  "sd_log (snd (data_fields a h ns s)) = sd_log s @ replicate (length ns) (SD_read h)"
proof (induction ns arbitrary: s)
  case Nil
  show ?case by simp
next
  case (Cons n ns)
  have "sd_log (snd (data_fields a h (n # ns) s)) = sd_log (snd (data_fields a h ns (sd_read h s)))"
    by (simp split: prod.splits option.splits)
  also have "\<dots> = (sd_log s @ [SD_read h]) @ replicate (length ns) (SD_read h)"
    by (simp add: Cons.IH)
  finally show ?case by simp
qed

lemma handles_ok_reads:
  "h \<in> set live \<Longrightarrow>
   handles_ok live gone (replicate k (SD_read h) @ es) = handles_ok live gone es"
  by (induction k) simp_all

lemma session_ended:
  assumes "n \<notin> set gone"
  shows "handles_ok [] gone (SD_open n # replicate k (SD_read n) @ SD_end n # SD_del n # es)
           = handles_ok [] (n # gone) es"
  using assms by (simp add: handles_ok_reads)

lemma session_dropped:
  assumes "n \<notin> set gone"
  shows "handles_ok [] gone (SD_open n # replicate k (SD_read n) @ SD_del n # es)
           = handles_ok [] (n # gone) es"
  using assms by (simp add: handles_ok_reads)

text \<open>
  The log of the Geotransform Builder: nothing when the archive does not open, otherwise one
  session of a new handle, and every handle it has released is older than the log it
  leaves.
\<close>

lemma sd_log_get_modis_projection_info:
  "\<exists>t gone. sd_log (snd (get_modis_projection_info E f s)) = sd_log s @ t
     \<and> (\<forall>es. handles_ok [] [] (t @ es) = handles_ok [] gone es)
     \<and> (\<forall>x \<in> set gone. x < length (sd_log s) + length t)"
proof (cases "sd_open E f")
  case None
  then have "sd_log (snd (get_modis_projection_info E f s)) = sd_log s @ []
     \<and> (\<forall>es. handles_ok [] [] ([] @ es) = handles_ok [] [] es)
     \<and> (\<forall>x \<in> set []. x < length (sd_log s) + length ([] :: sd_event list))"
    by (simp add: get_modis_projection_info_def)
  then show ?thesis by blast
next
  case (Some a)
  let ?n = "length (sd_log s)"
  let ?raised = "SD_open ?n # replicate 1 (SD_read ?n) @ SD_del ?n # []"
  let ?ended = "SD_open ?n # replicate 1 (SD_read ?n) @ SD_end ?n # SD_del ?n # []"
  have shape: "sd_log (snd (get_modis_projection_info E f s)) = sd_log s @ ?raised
            \<or> sd_log (snd (get_modis_projection_info E f s)) = sd_log s @ ?ended"
    using Some
    by (simp add: get_modis_projection_info_def sd_start_def sd_read_def sd_end_def sd_del_def
          Let_def split: sum.splits option.splits prod.splits)
  have ok: "handles_ok [] [] (?raised @ es) = handles_ok [] [?n] es"
    "handles_ok [] [] (?ended @ es) = handles_ok [] [?n] es" for es
    using session_dropped[of ?n "[]" 1 es] session_ended[of ?n "[]" 1 es] by simp_all
  from shape show ?thesis
  proof
    assume "sd_log (snd (get_modis_projection_info E f s)) = sd_log s @ ?raised"
    then have "sd_log (snd (get_modis_projection_info E f s)) = sd_log s @ ?raised
       \<and> (\<forall>es. handles_ok [] [] (?raised @ es) = handles_ok [] [?n] es)
       \<and> (\<forall>x \<in> set [?n]. x < length (sd_log s) + length ?raised)"
      using ok by simp
    then show ?thesis by blast
  next
    assume "sd_log (snd (get_modis_projection_info E f s)) = sd_log s @ ?ended"
    then have "sd_log (snd (get_modis_projection_info E f s)) = sd_log s @ ?ended
       \<and> (\<forall>es. handles_ok [] [] (?ended @ es) = handles_ok [] [?n] es)
       \<and> (\<forall>x \<in> set [?n]. x < length (sd_log s) + length ?ended)"
      using ok by simp
    then show ?thesis by blast
  qed
qed

lemma released_get_modis_projection_info:
  "\<exists>t. sd_log (snd (get_modis_projection_info E f s)) = sd_log s @ t \<and> handles_ok [] [] t"
proof -
  from sd_log_get_modis_projection_info[of E f s]
  obtain t gone where t: "sd_log (snd (get_modis_projection_info E f s)) = sd_log s @ t"
    and ok: "\<forall>es. handles_ok [] [] (t @ es) = handles_ok [] gone es"
    by blast
  from ok have "handles_ok [] [] (t @ []) = handles_ok [] gone []" by blast
  then have "handles_ok [] [] t" by simp
  with t show ?thesis by blast
qed

lemma released_analyze_hdf_file:
  "\<exists>t. sd_log (snd (analyze_hdf_file E f s)) = sd_log s @ t \<and> handles_ok [] [] t"
proof (cases "sd_open E f")
  case None
  then have "sd_log (snd (analyze_hdf_file E f s)) = sd_log s @ [] \<and> handles_ok [] [] []"
    by (simp add: analyze_hdf_file_def)
  then show ?thesis by blast
next
  case (Some a)
  let ?n = "length (sd_log s)"
  let ?s1 = "sd_read ?n (snd (sd_start s))"
  show ?thesis
  proof (cases "analyze_resolution (py_float E) (struct_metadata_text a)")
    case (Inl e)
    let ?t = "SD_open ?n # replicate 1 (SD_read ?n) @ SD_del ?n # []"
    have "sd_log (snd (analyze_hdf_file E f s)) = sd_log s @ ?t"
      using Some Inl
      by (simp add: analyze_hdf_file_def sd_start_def sd_read_def sd_del_def Let_def)
    moreover have "handles_ok [] [] ?t"
      using session_dropped[of ?n "[]" 1 "[]"] by simp
    ultimately show ?thesis by blast
  next
    case (Inr r)
    let ?k = "Suc (Suc (length (dataset_names a)))"
    let ?t = "SD_open ?n # replicate ?k (SD_read ?n) @ SD_end ?n # SD_del ?n # []"
    obtain found s2 where df: "data_fields a ?n (dataset_names a) (sd_read ?n ?s1) = (found, s2)"
      by (cases "data_fields a ?n (dataset_names a) (sd_read ?n ?s1)")
    have "sd_log s2 = sd_log (sd_read ?n ?s1) @ replicate (length (dataset_names a)) (SD_read ?n)"
      using sd_log_data_fields[of a ?n "dataset_names a" "sd_read ?n ?s1"] df by simp
    then have "sd_log (sd_del ?n (sd_end ?n s2)) = sd_log s @ ?t"
      by (simp add: replicate_append_same)
    moreover have "snd (analyze_hdf_file E f s) = sd_del ?n (sd_end ?n s2)"
      using Some Inr df by (simp add: analyze_hdf_file_def sd_start_def Let_def)
    moreover have "handles_ok [] [] ?t"
      using session_ended[of ?n "[]" ?k "[]"] by simp
    ultimately show ?thesis by metis
  qed
qed

lemma released_hdf_to_geotiff_sinusoidal:
  "\<exists>t. sd_log (snd (hdf_to_geotiff_sinusoidal E f out ds s)) = sd_log s @ t
       \<and> handles_ok [] [] t"
proof -
  let ?od = "case out of None \<Rightarrow> os_path_dirname f | Some d \<Rightarrow> d"
  have unchanged: ?thesis if "snd (hdf_to_geotiff_sinusoidal E f out ds s) = s"
  proof -
    from that have "sd_log (snd (hdf_to_geotiff_sinusoidal E f out ds s)) = sd_log s @ []
                    \<and> handles_ok [] [] []"
      by simp
    then show ?thesis by blast
  qed
  show ?thesis
  proof (cases "os_path_exists s f")
    case False
    then have "snd (hdf_to_geotiff_sinusoidal E f out ds s) = s"
      by (simp add: hdf_to_geotiff_sinusoidal_def)
    then show ?thesis by (rule unchanged)
  next
    case ex: True
    show ?thesis
    proof (cases "os_makedirs ?od s")
      case (Inl e)
      with ex have "snd (hdf_to_geotiff_sinusoidal E f out ds s) = s"
        by (simp add: hdf_to_geotiff_sinusoidal_def)
      then show ?thesis by (rule unchanged)
    next
      case mk: (Inr s1)
      obtain pinfo s2 where g: "get_modis_projection_info E f s1 = (pinfo, s2)"
        by (cases "get_modis_projection_info E f s1")
      from sd_log_get_modis_projection_info[of E f s1] g sd_log_os_makedirs[OF mk]
      obtain t gone where t: "sd_log s2 = sd_log s @ t"
        and ok: "\<forall>es. handles_ok [] [] (t @ es) = handles_ok [] gone es"
        and old: "\<forall>x \<in> set gone. x < length (sd_log s) + length t"
        by auto
      show ?thesis
      proof (cases "sd_open E f")
        case None
        have "snd (hdf_to_geotiff_sinusoidal E f out ds s) = s2"
          using ex mk g None by (simp add: hdf_to_geotiff_sinusoidal_def)
        moreover have "handles_ok [] [] t"
          using ok[rule_format, of "[]"] by simp
        ultimately show ?thesis using t by metis
      next
        case (Some a)
        let ?m = "length (sd_log s2)"
        let ?u = "sd_read ?m (snd (sd_start s2))"
        obtain r s4 where loop: "convert_datasets E a ?m pinfo (os_path_basename f)
             (parse_modis_date E (os_path_basename f)) ?od
             (process_datasets ds (dataset_names a)) [] ?u = (r, s4)"
          by (cases "convert_datasets E a ?m pinfo (os_path_basename f)
             (parse_modis_date E (os_path_basename f)) ?od
             (process_datasets ds (dataset_names a)) [] ?u")
        from sd_log_convert_datasets[of E a ?m pinfo "os_path_basename f"
            "parse_modis_date E (os_path_basename f)" ?od "process_datasets ds (dataset_names a)"
            "[]" ?u] loop
        obtain k where "sd_log s4 = sd_log ?u @ replicate k (SD_read ?m)"
          by auto
        then have s4: "sd_log s4 = sd_log s @ t @ SD_open ?m # replicate (Suc k) (SD_read ?m)"
          by (simp add: t replicate_append_same)
        have fresh: "?m \<notin> set gone"
          using old t by auto
        note run = hdf_to_geotiff_sinusoidal_run[OF ex mk g Some loop]
        show ?thesis
        proof (cases r)
          case (Inl e)
          let ?t2 = "SD_open ?m # replicate (Suc k) (SD_read ?m) @ SD_del ?m # []"
          have "sd_log (snd (hdf_to_geotiff_sinusoidal E f out ds s)) = sd_log s @ (t @ ?t2)"
            using run Inl s4 by simp
          moreover have "handles_ok [] [] (t @ ?t2)"
            using ok[rule_format, of ?t2] session_dropped[OF fresh, of "Suc k" "[]"]
            by simp
          ultimately show ?thesis by blast
        next
          case (Inr created)
          let ?t2 = "SD_open ?m # replicate (Suc k) (SD_read ?m) @ SD_end ?m # SD_del ?m # []"
          have "sd_log (snd (hdf_to_geotiff_sinusoidal E f out ds s)) = sd_log s @ (t @ ?t2)"
            using run Inr s4 by simp
          moreover have "handles_ok [] [] (t @ ?t2)"
            using ok[rule_format, of ?t2] session_ended[OF fresh, of "Suc k" "[]"]
            by simp
          ultimately show ?thesis by blast
        qed
      qed
    qed
  qed
qed

text \<open>
  C9. Whatever the archive, the disk and the request: what the Geotransform Builder, the
  analysis and the conversion of one archive add to the log of the archive handles is a
  run in which every handle that is opened is released before the function returns, by
  \<^verbatim>\<open>end()\<close> on the ordinary way out and by the destructor of the local \<^verbatim>\<open>SD\<close> object
  on every return, also after an exception, and in which no handle is read or ended after
  its release. The handles opened are new ones, so that the same holds of the whole log
  when it held of the log before.
\<close>

theorem C9_handle_released:
  "(\<exists>t. sd_log (snd (hdf_to_geotiff_sinusoidal E hdf_file output_dir datasets s)) = sd_log s @ t
        \<and> handles_ok [] [] t)
   \<and> (\<exists>t. sd_log (snd (analyze_hdf_file E hdf_file s)) = sd_log s @ t \<and> handles_ok [] [] t)
   \<and> (\<exists>t. sd_log (snd (get_modis_projection_info E hdf_file s)) = sd_log s @ t
        \<and> handles_ok [] [] t)"
  using released_hdf_to_geotiff_sinusoidal[of E hdf_file output_dir datasets s]
    released_analyze_hdf_file[of E hdf_file s]
    released_get_modis_projection_info[of E hdf_file s]
  by (intro conjI)

lemma projection_state_raised:
  assumes "sd_open E f = Some a"
    and "extract_geotransform (py_float E) (struct_metadata_text a) = Inl e"
  shows "get_modis_projection_info E f s
           = (None, sd_del (length (sd_log s)) (sd_read (length (sd_log s)) (snd (sd_start s))))"
  using assms by (simp add: get_modis_projection_info_def sd_start_def)

lemma projection_state_ended:
  assumes "sd_open E f = Some a"
    and "extract_geotransform (py_float E) (struct_metadata_text a) = Inr r"
  shows "snd (get_modis_projection_info E f s)
           = sd_del (length (sd_log s))
               (sd_end (length (sd_log s)) (sd_read (length (sd_log s)) (snd (sd_start s))))"
  using assms
  by (simp add: get_modis_projection_info_def sd_start_def Let_def
        split: option.splits prod.splits)

lemma tile_struct_metadata:
  "struct_metadata_text (tile_archive (Some md) names) = md"
  by (simp add: struct_metadata_text_def tile_archive_def)

lemma zero_xdim_analysis_raises:
  "analyze_resolution decimal_float zero_xdim_metadata = Inl ZeroDivisionError"
  by (simp add: analyze_resolution_def zero_xdim_matches decimal_floats to_float_def
        py_int_def digit_value_def true_div_def)

lemma empty_logs: "sd_log tile_disk = []" "sd_log blocked_disk = []"
  by (simp_all add: tile_disk_def blocked_disk_def)

lemma zero_xdim_log:
  "sd_log (snd (get_modis_projection_info
        (tile_env tile_path (Some (tile_archive (Some zero_xdim_metadata) names)))
        tile_path tile_disk)) = [SD_open 0, SD_read 0, SD_del 0]"
  by (simp add: projection_state_raised[OF tile_sd_open] tile_floats tile_struct_metadata
        zero_xdim_raises empty_logs)

lemma zero_xdim_analysis_log:
  "sd_log (snd (analyze_hdf_file
        (tile_env tile_path (Some (tile_archive (Some zero_xdim_metadata) names)))
        tile_path tile_disk)) = [SD_open 0, SD_read 0, SD_del 0]"
  by (simp add: analyze_hdf_file_def tile_sd_open tile_floats tile_struct_metadata
        zero_xdim_analysis_raises empty_logs sd_start_def Let_def)

lemma zero_xdim_conversion_log:
  "sd_log (snd (hdf_to_geotiff_sinusoidal
        (tile_env tile_path (Some (tile_archive (Some zero_xdim_metadata) modis_names)))
        tile_path None None tile_disk))
   = [SD_open 0, SD_read 0, SD_del 0, SD_open 3, SD_read 3, SD_read 3, SD_end 3, SD_del 3]"
proof -
  let ?a = "tile_archive (Some zero_xdim_metadata) modis_names"
  let ?E = "tile_env tile_path (Some ?a)"
  let ?s2 = "sd_del 0 (sd_read 0 (snd (sd_start tile_disk)))"
  have g: "get_modis_projection_info ?E tile_path tile_disk = (None, ?s2)"
    by (simp add: projection_state_raised[OF tile_sd_open] tile_floats tile_struct_metadata
          zero_xdim_raises empty_logs)
  have len: "length (sd_log ?s2) = 3"
    by (simp add: empty_logs)
  let ?u = "sd_read 3 (snd (sd_start ?s2))"
  have ab: "\<not> os_path_exists ?u ndvi_tif"
    using tile_disk_absent(1) by simp
  let ?r = "GeoTIFF \<lparr>raster_x_size = 4800, raster_y_size = 4800,
                        raster_geotransform = None, raster_projection = None,
                        raster_nodata = (None :: int nodata option)\<rparr>"
  have loop: "convert_datasets ?E ?a (length (sd_log ?s2)) None (os_path_basename tile_path)
           (parse_modis_date ?E (os_path_basename tile_path))
           (case None of None \<Rightarrow> os_path_dirname tile_path | Some p \<Rightarrow> p)
           (process_datasets None (dataset_names ?a)) []
           (sd_read (length (sd_log ?s2)) (snd (sd_start ?s2)))
         = (Inr [], (sd_read 3 ?u)\<lparr>files := (files ?u)(ndvi_tif \<mapsto> ?r)\<rparr>)"
    unfolding len
    using convert_datasets_single[OF tile_skip_ndvi[OF ab], of tile_path "Some ?a"
        "Some zero_xdim_metadata" modis_names 3 "[]"]
    by (simp add: tile_basename tile_date tile_dirname tile_default_selection)
  have "hdf_to_geotiff_sinusoidal ?E tile_path None None tile_disk
          = (Inr [], sd_del 3 (sd_end 3 ((sd_read 3 ?u)\<lparr>files := (files ?u)(ndvi_tif \<mapsto> ?r)\<rparr>)))"
    using hdf_to_geotiff_sinusoidal_run[OF tile_exists tile_makedirs_default g tile_sd_open loop]
    by (simp add: empty_logs eval_nat_numeral)
  then show ?thesis
    by (simp add: empty_logs)
qed

lemma blocked_conversion_log:
  "sd_log (snd (hdf_to_geotiff_sinusoidal
        (tile_env tile_path (Some (tile_archive (Some tile_metadata) stack_first)))
        tile_path None None blocked_disk))
   = [SD_open 0, SD_read 0, SD_end 0, SD_del 0, SD_open 4, SD_read 4, SD_del 4]"
proof -
  let ?a = "tile_archive (Some tile_metadata) stack_first"
  let ?E = "tile_env tile_path (Some ?a)"
  let ?s2 = "sd_del 0 (sd_end 0 (sd_read 0 (snd (sd_start blocked_disk))))"
  have "snd (get_modis_projection_info ?E tile_path blocked_disk) = ?s2"
    by (simp add: projection_state_ended[OF tile_sd_open] tile_floats tile_struct_metadata
          tile_geotransform empty_logs)
  then obtain pinfo where g: "get_modis_projection_info ?E tile_path blocked_disk = (pinfo, ?s2)"
    by (cases "get_modis_projection_info ?E tile_path blocked_disk") auto
  have len: "length (sd_log ?s2) = 4"
    by (simp add: empty_logs)
  let ?u = "sd_read 4 (snd (sd_start ?s2))"
  have u: "files ?u = files blocked_disk" "dirs ?u = dirs blocked_disk"
    by simp_all
  have loop: "convert_datasets ?E ?a (length (sd_log ?s2)) pinfo (os_path_basename tile_path)
           (parse_modis_date ?E (os_path_basename tile_path))
           (case None of None \<Rightarrow> os_path_dirname tile_path | Some p \<Rightarrow> p)
           (process_datasets None (dataset_names ?a)) []
           (sd_read (length (sd_log ?s2)) (snd (sd_start ?s2)))
         = (Inl IsADirectoryError, ?u)"
    unfolding len
    by (simp add: tile_basename tile_date tile_dirname stack_first_selection
          blocked_loop[OF u])
  have "hdf_to_geotiff_sinusoidal ?E tile_path None None blocked_disk = (Inr [], sd_del 4 ?u)"
    using hdf_to_geotiff_sinusoidal_run[OF blocked_facts(1) blocked_makedirs g tile_sd_open
        loop]
    by (simp add: empty_logs eval_nat_numeral)
  then show ?thesis
    by (simp add: empty_logs)
qed

text \<open>
  C9 on the paths that raise. On the tile whose metadata says \<^verbatim>\<open>XDim=0\<close> the division
  raises in the Geotransform Builder and in the analysis, which never reach \<^verbatim>\<open>end()\<close>:
  the handle is opened, read and released by the destructor. The conversion of that tile
  adds its own session, which ends in the ordinary way. With a directory at the output path
  of the first dataset, the loop of the conversion raises before the dataset is selected,
  and its handle is released by the destructor. Each of these logs releases every handle
  that it opens and uses none after its release.
\<close>

theorem C9_handle_released_witness:
  "sd_log (snd (get_modis_projection_info
        (tile_env tile_path (Some (tile_archive (Some zero_xdim_metadata) modis_names)))
        tile_path tile_disk)) = [SD_open 0, SD_read 0, SD_del 0]
   \<and> sd_log (snd (analyze_hdf_file
        (tile_env tile_path (Some (tile_archive (Some zero_xdim_metadata) modis_names)))
        tile_path tile_disk)) = [SD_open 0, SD_read 0, SD_del 0]
   \<and> sd_log (snd (hdf_to_geotiff_sinusoidal
        (tile_env tile_path (Some (tile_archive (Some zero_xdim_metadata) modis_names)))
        tile_path None None tile_disk))
       = [SD_open 0, SD_read 0, SD_del 0, SD_open 3, SD_read 3, SD_read 3, SD_end 3, SD_del 3]
   \<and> sd_log (snd (hdf_to_geotiff_sinusoidal
        (tile_env tile_path (Some (tile_archive (Some tile_metadata) stack_first)))
        tile_path None None blocked_disk))
       = [SD_open 0, SD_read 0, SD_end 0, SD_del 0, SD_open 4, SD_read 4, SD_del 4]
   \<and> handles_ok [] [] [SD_open 0, SD_read 0, SD_del 0]
   \<and> handles_ok [] []
        [SD_open 0, SD_read 0, SD_del 0, SD_open 3, SD_read 3, SD_read 3, SD_end 3, SD_del 3]
   \<and> handles_ok [] []
        [SD_open 0, SD_read 0, SD_end 0, SD_del 0, SD_open 4, SD_read 4, SD_del 4]"
proof -
  let ?E = "tile_env tile_path (Some (tile_archive (Some zero_xdim_metadata) modis_names))"
  let ?F = "tile_env tile_path (Some (tile_archive (Some tile_metadata) stack_first))"
  note zero = C9_handle_released[of ?E tile_path None None tile_disk]
  note blocked = C9_handle_released[of ?F tile_path None None blocked_disk]
  have a: "handles_ok [] [] [SD_open 0, SD_read 0, SD_del 0]"
    using zero by (simp add: zero_xdim_log empty_logs)
  have b: "handles_ok [] []
        [SD_open 0, SD_read 0, SD_del 0, SD_open 3, SD_read 3, SD_read 3, SD_end 3, SD_del 3]"
    using zero by (simp add: zero_xdim_conversion_log empty_logs)
  have c: "handles_ok [] []
        [SD_open 0, SD_read 0, SD_end 0, SD_del 0, SD_open 4, SD_read 4, SD_del 4]"
    using blocked by (simp add: blocked_conversion_log empty_logs)
  from a b c show ?thesis
    by (simp only: zero_xdim_log zero_xdim_analysis_log zero_xdim_conversion_log
          blocked_conversion_log simp_thms)
qed


end
